theory Spec2Isabelle
  imports Complex_Main
begin

section \<open>Strings and floating-point numbers of the source language\<close>

text \<open>
  Python strings are modelled as lists of the 8-bit \<open>char\<close> type, each element read as
  one code point in the range 0..255 (Latin-1). Python integers are \<open>int\<close>.

  \<open>str.lower()\<close>: in this range the upper-case letters are \<open>A..Z\<close> and
  \<open>U+00C0..U+00DE\<close> without the multiplication sign \<open>U+00D7\<close>; each is 32 below its
  lower-case letter.
\<close>

definition lower_char :: "char \<Rightarrow> char" where
  "lower_char c =
     (let n = (of_char c :: nat)
      in if (65 \<le> n \<and> n \<le> 90) \<or> (192 \<le> n \<and> n \<le> 222 \<and> n \<noteq> 215)
         then char_of (n + 32) else c)"

definition lower :: "string \<Rightarrow> string" where
  "lower s = map lower_char s"

text \<open>\<open>s.startswith(p)\<close>, and the substring test \<open>p in s\<close>.\<close>

fun startswith :: "string \<Rightarrow> string \<Rightarrow> bool" where
  "startswith s [] = True"
| "startswith [] (p # ps) = False"
| "startswith (c # cs) (p # ps) = (c = p \<and> startswith cs ps)"

fun contains :: "string \<Rightarrow> string \<Rightarrow> bool" where
  "contains p [] = (p = [])"
| "contains p (c # cs) = (startswith (c # cs) p \<or> contains p cs)"

text \<open>
  A Python \<open>float\<close> is an IEEE 754 binary64 number. A finite float is modelled by the
  rational number it denotes, and every operation rounds its exact result to the nearest
  number with a 53-bit significand, ties to the even significand. The exponent is not
  bounded in the model: it agrees with binary64 for magnitudes from \<open>2\<^sup>-\<^sup>1\<^sup>0\<^sup>2\<^sup>2\<close> up to
  \<open>2\<^sup>1\<^sup>0\<^sup>2\<^sup>4\<close>, and every nonzero number the classifier below computes lies well inside.

  \<open>bitlen n\<close> is the number of binary digits of a positive integer, \<open>binade x\<close> the
  exponent \<open>e\<close> with \<open>2\<^sup>e \<le> x < 2\<^sup>e\<^sup>+\<^sup>1\<close> of a positive rational.
\<close>

function bitlen :: "int \<Rightarrow> int" where
  "bitlen n = (if n \<le> 0 then 0 else 1 + bitlen (n div 2))"
  by pat_completeness auto
termination
  by (relation "measure nat") auto

declare bitlen.simps [simp del]

definition pow2 :: "int \<Rightarrow> rat" where
  "pow2 k = power_int 2 k"

definition binade :: "rat \<Rightarrow> int" where
  "binade x =
     (let (p, q) = quotient_of x;
          k = bitlen p - bitlen q
      in if pow2 k \<le> x then k else k - 1)"

definition round_half_even :: "rat \<Rightarrow> int" where
  "round_half_even y =
     (let n = \<lfloor>y\<rfloor>; r = y - of_int n
      in if r < 1 / 2 then n else if 1 / 2 < r then n + 1 else if even n then n else n + 1)"

definition fl :: "rat \<Rightarrow> rat" where
  "fl x =
     (if x = 0 then 0
      else let a = \<bar>x\<bar>; u = pow2 (binade a - 52)
           in sgn x * of_int (round_half_even (a / u)) * u)"

text \<open>Float addition and division, and \<open>round(x, 4)\<close> on a float.\<close>

definition fadd :: "rat \<Rightarrow> rat \<Rightarrow> rat" where
  "fadd a b = fl (a + b)"

definition fdiv :: "rat \<Rightarrow> rat \<Rightarrow> rat" where
  "fdiv a b = fl (a / b)"

definition round4 :: "rat \<Rightarrow> rat" where
  "round4 x = fl (sgn x * of_int (round_half_even (\<bar>x\<bar> * 10000)) / 10000)"

section \<open>Intent classifier\<close>

record IntentResult =
  primary_intent :: string
  confidence :: rat
  secondary_intents :: "(string \<times> rat) list"
  keywords_list :: "string list"

definition FETCH_ALL_PHRASES :: "string list" where
  "FETCH_ALL_PHRASES =
    [''analyse'', ''analyze'', ''analysis'',
     ''performance'', ''overview'', ''summary'', ''report'',
     ''how am i doing'', ''how i am doing'',
     ''how are my finances'', ''financial health'',
     ''financial status'', ''financial situation'',
     ''give me a summary'', ''full picture'',
     ''overall'', ''everything'', ''all my'',
     ''am i doing well'', ''am i doing good'',
     ''how is my'', ''review my'',
     ''check my finances'', ''check my financial'',
     ''assess'', ''assessment'', ''evaluate'', ''evaluation'',
     ''dashboard'', ''snapshot'']"

definition MULTI_INTENT_PHRASES :: "(string \<times> string list) list" where
  "MULTI_INTENT_PHRASES =
    [(''am i saving enough'', [''transactions'', ''goals'']),
     (''saving enough'', [''transactions'', ''goals'']),
     (''what should i focus on'', [''transactions'', ''goals'']),
     (''where should i focus'', [''transactions'', ''goals'']),
     (''am i on track'', [''transactions'', ''goals'']),
     (''how close am i'', [''transactions'', ''goals'']),
     (''can i afford'', [''transactions'', ''goals'']),
     (''afford'', [''transactions'', ''goals'']),
     (''reach my goal'', [''transactions'', ''goals'']),
     (''meet my goal'', [''transactions'', ''goals'']),
     (''achieve my goal'', [''transactions'', ''goals'']),
     (''budget vs'', [''transactions'', ''goals'']),
     (''upcoming goals'', [''goals'', ''reminders'']),
     (''goal deadlines'', [''goals'', ''reminders'']),
     (''pending bills'', [''transactions'', ''reminders'']),
     (''bills and expenses'', [''transactions'', ''reminders'']),
     (''overdue payments'', [''transactions'', ''reminders''])]"

definition TIME_PATTERNS :: "(string \<times> int option) list" where
  "TIME_PATTERNS =
    [(''today'', Some 0),
     (''yesterday'', Some 1),
     (''this week'', Some 7),
     (''last week'', Some 14),
     (''this month'', Some 30),
     (''last month'', Some 60),
     (''this quarter'', Some 90),
     (''last quarter'', Some 180),
     (''this year'', Some 365),
     (''last year'', Some 730),
     (''all'', None),
     (''forever'', None)]"

definition KEYWORDS_transactions :: "(string \<times> rat) list" where
  "KEYWORDS_transactions =
    [(''how much did i spend'', 3.0),
     (''transaction history'', 3.0),
     (''account balance'', 3.0),
     (''payment history'', 3.0),
     (''show me my expenses'', 3.0),
     (''recent transactions'', 3.0),
     (''total spending'', 2.5),
     (''total expenses'', 2.5),
     (''how much have i'', 2.5),
     (''what did i spend'', 2.5),
     (''money spent'', 2.0),
     (''cash flow'', 2.0),
     (''transaction'', 1.5),
     (''transactions'', 1.5),
     (''expense'', 1.5),
     (''expenses'', 1.5),
     (''spending'', 1.5),
     (''spent'', 1.2),
     (''income'', 1.5),
     (''payment'', 1.2),
     (''payments'', 1.2),
     (''receipt'', 1.2),
     (''receipts'', 1.2),
     (''charge'', 1.0),
     (''charges'', 1.0),
     (''debit'', 1.2),
     (''credit'', 1.0),
     (''transfer'', 1.2),
     (''balance'', 1.2),
     (''purchase'', 1.2),
     (''purchases'', 1.2),
     (''bought'', 1.0),
     (''buy'', 0.8),
     (''paid'', 1.0),
     (''cost'', 0.8),
     (''cash'', 0.8),
     (''card'', 0.8),
     (''total'', 0.8),
     (''sum'', 0.8),
     (''account'', 0.8),
     (''history'', 0.8),
     (''money'', 0.7)]"

definition KEYWORDS_goals :: "(string \<times> rat) list" where
  "KEYWORDS_goals =
    [(''savings goal'', 3.0),
     (''financial goal'', 3.0),
     (''saving for'', 2.5),
     (''how much have i saved'', 2.5),
     (''goal progress'', 2.5),
     (''savings target'', 2.5),
     (''budget plan'', 2.0),
     (''financial plan'', 2.0),
     (''am i on track'', 2.0),
     (''how close am i'', 2.0),
     (''reach my goal'', 2.0),
     (''goal'', 1.5),
     (''goals'', 1.5),
     (''target'', 1.2),
     (''save'', 1.2),
     (''saving'', 1.2),
     (''savings'', 1.2),
     (''milestone'', 1.5),
     (''objective'', 1.2),
     (''achievement'', 1.0),
     (''accumulate'', 1.2),
     (''fund'', 1.0),
     (''budget'', 1.2),
     (''plan'', 0.8),
     (''progress'', 1.0),
     (''track'', 0.8),
     (''invest'', 0.8),
     (''investment'', 0.8),
     (''retire'', 1.0),
     (''retirement'', 1.2),
     (''emergency fund'', 2.0)]"

definition KEYWORDS_reminders :: "(string \<times> rat) list" where
  "KEYWORDS_reminders =
    [(''set a reminder'', 3.0),
     (''set reminder'', 3.0),
     (''remind me'', 3.0),
     (''create an alert'', 3.0),
     (''send me a notification'', 3.0),
     (''payment due'', 2.5),
     (''bill due'', 2.5),
     (''upcoming payment'', 2.5),
     (''payment reminder'', 3.0),
     (''due date'', 2.0),
     (''don'' @ [CHR 0x27] @ ''t let me forget'', 2.0),
     (''notify me'', 2.0),
     (''alert me'', 2.0),
     (''reminder'', 2.0),
     (''reminders'', 2.0),
     (''remind'', 1.5),
     (''alert'', 1.2),
     (''alerts'', 1.2),
     (''notification'', 1.5),
     (''notifications'', 1.5),
     (''notify'', 1.2),
     (''schedule'', 1.0),
     (''alarm'', 1.2),
     (''upcoming'', 1.0),
     (''due'', 0.8),
     (''overdue'', 1.2),
     (''recurring'', 1.0),
     (''subscription'', 1.0)]"

definition INTENT_KEYWORDS :: "(string \<times> (string \<times> rat) list) list" where
  "INTENT_KEYWORDS =
    [(''transactions'', KEYWORDS_transactions),
     (''goals'', KEYWORDS_goals),
     (''reminders'', KEYWORDS_reminders)]"

definition CONFIDENCE_THRESHOLD :: rat where
  "CONFIDENCE_THRESHOLD = fl 0.4"

definition score_keywords :: "string \<Rightarrow> (string \<times> rat) list \<Rightarrow> rat" where
  "score_keywords query_lower keyword_weights =
     foldl (\<lambda>score (keyword, weight).
              if contains keyword query_lower then fadd score (fl weight) else score)
           0 keyword_weights"

definition intent_scores :: "string \<Rightarrow> (string \<times> rat) list" where
  "intent_scores query_lower =
     map (\<lambda>(intent, keyword_weights). (intent, score_keywords query_lower keyword_weights))
         INTENT_KEYWORDS"

definition found_keywords :: "string \<Rightarrow> string list" where
  "found_keywords query_lower =
     foldl (\<lambda>found (keyword, weight).
              if contains keyword query_lower \<and> keyword \<notin> set found
              then found @ [keyword] else found)
           [] (concat (map snd INTENT_KEYWORDS))"

text \<open>
  \<open>sum\<close> adds from left to right, starting from the integer 0, each addition rounded. This
  is the \<open>sum\<close> of CPython up to version 3.11; from version 3.12 on, the rounding errors of
  a sum of floats are compensated, and a total may differ in its last bits.
\<close>

definition py_sum :: "rat list \<Rightarrow> rat" where
  "py_sum xs = foldl fadd 0 xs"

definition py_max :: "rat list \<Rightarrow> rat" where
  "py_max xs = foldl max (hd xs) (tl xs)"

fun max_by_value :: "(string \<times> rat) \<Rightarrow> (string \<times> rat) list \<Rightarrow> (string \<times> rat)" where
  "max_by_value best [] = best"
| "max_by_value best (x # xs) = max_by_value (if snd best < snd x then x else best) xs"

definition py_max_key :: "(string \<times> rat) list \<Rightarrow> string" where
  "py_max_key d = fst (max_by_value (hd d) (tl d))"

definition dict_get :: "(string \<times> rat) list \<Rightarrow> string \<Rightarrow> rat" where
  "dict_get d k = (case map_of d k of Some v \<Rightarrow> v | None \<Rightarrow> 0)"

fun insert_desc :: "(string \<times> rat) \<Rightarrow> (string \<times> rat) list \<Rightarrow> (string \<times> rat) list" where
  "insert_desc x [] = [x]"
| "insert_desc x (y # ys) = (if snd y < snd x then x # y # ys else y # insert_desc x ys)"

definition sorted_desc :: "(string \<times> rat) list \<Rightarrow> (string \<times> rat) list" where
  "sorted_desc xs = foldl (\<lambda>acc x. insert_desc x acc) [] xs"

text \<open>
  The decision part of \<open>classify\<close>, from the accumulated scores and the keywords found.
  \<open>max\<close> of an empty sequence would raise; both calls below are on the three entries
  of \<open>INTENT_KEYWORDS\<close>. The free-text \<open>reasoning\<close> field of the result is not modelled.
\<close>

definition normalize :: "(string \<times> rat) list \<Rightarrow> rat \<Rightarrow> (string \<times> rat) list" where
  "normalize scores tot = map (\<lambda>(intent, score). (intent, fdiv score tot)) scores"

definition classify_scores :: "(string \<times> rat) list \<Rightarrow> string list \<Rightarrow> IntentResult" where
  "classify_scores scores found =
     (let tot = py_sum (map snd scores);
          mx = py_max (map snd scores) in
      if tot = 0 \<or> mx = 0 then
        \<lparr>primary_intent = ''general'', confidence = fl 0.5,
         secondary_intents = [], keywords_list = []\<rparr>
      else
        let norm = normalize scores tot;
            primary = py_max_key norm;
            conf = dict_get norm primary;
            secondary = sorted_desc
              (map (\<lambda>(intent, score). (intent, round4 score))
                   (filter (\<lambda>(intent, score). intent \<noteq> primary \<and> 0 < score) norm))
        in if conf < CONFIDENCE_THRESHOLD then
             \<lparr>primary_intent = ''general'', confidence = round4 (round4 conf),
              secondary_intents = secondary, keywords_list = found\<rparr>
           else
             \<lparr>primary_intent = primary, confidence = round4 conf,
              secondary_intents = secondary, keywords_list = found\<rparr>)"

definition classify :: "string \<Rightarrow> IntentResult" where
  "classify query =
     (let query_lower = lower query
      in classify_scores (intent_scores query_lower) (found_keywords query_lower))"

text \<open>
  The quantities the claims about \<open>classify\<close> speak of: the total accumulated weight,
  the per-category confidences, and the largest of the confidences.
\<close>

definition total_score :: "string \<Rightarrow> rat" where
  "total_score query = py_sum (map snd (intent_scores (lower query)))"

definition normalized :: "string \<Rightarrow> (string \<times> rat) list" where
  "normalized query = normalize (intent_scores (lower query)) (total_score query)"

definition max_confidence :: "string \<Rightarrow> rat" where
  "max_confidence query = Max (set (map snd (normalized query)))"

type_synonym fetch_plan = "string \<rightharpoonup> bool"

definition all_false :: fetch_plan where
  "all_false = [''needs_transactions'' \<mapsto> False, ''needs_goals'' \<mapsto> False,
                ''needs_reminders'' \<mapsto> False]"

definition all_true :: fetch_plan where
  "all_true = [''needs_transactions'' \<mapsto> True, ''needs_goals'' \<mapsto> True,
               ''needs_reminders'' \<mapsto> True]"

definition set_need :: "fetch_plan \<Rightarrow> string \<Rightarrow> fetch_plan" where
  "set_need result intent = result(''needs_'' @ intent \<mapsto> True)"

fun first_multi :: "string \<Rightarrow> (string \<times> string list) list \<Rightarrow> string list option" where
  "first_multi q [] = None"
| "first_multi q ((phrase, intents) # rest) =
     (if contains phrase q then Some intents else first_multi q rest)"

definition add_secondary :: "fetch_plan \<Rightarrow> (string \<times> rat) \<Rightarrow> fetch_plan" where
  "add_secondary result s =
     (if fl 0.25 < snd s \<and> fst s \<in> set [''transactions'', ''goals'', ''reminders'']
      then set_need result (fst s) else result)"

definition get_intents_for_fetch :: "string \<Rightarrow> fetch_plan" where
  "get_intents_for_fetch query =
     (let q = lower query in
      if list_ex (\<lambda>phrase. contains phrase q) FETCH_ALL_PHRASES then all_true
      else case first_multi q MULTI_INTENT_PHRASES of
        Some intents \<Rightarrow> foldl set_need all_false intents
      | None \<Rightarrow>
          let intent_result = classify query in
          if primary_intent intent_result = ''general'' then all_true
          else foldl add_secondary
                 (set_need all_false (primary_intent intent_result))
                 (secondary_intents intent_result))"

definition timedelta_days :: "int \<Rightarrow> int" where
  "timedelta_days d = d * 86400000000"

fun first_time_pattern :: "string \<Rightarrow> (string \<times> int option) list \<Rightarrow> int option option" where
  "first_time_pattern q [] = None"
| "first_time_pattern q ((pattern, days) # rest) =
     (if contains pattern q then Some days else first_time_pattern q rest)"

definition extract_time_range :: "int \<Rightarrow> string \<Rightarrow> int option \<times> int option" where
  "extract_time_range now query =
     (case first_time_pattern (lower query) TIME_PATTERNS of
        Some None \<Rightarrow> (None, Some now)
      | Some (Some days) \<Rightarrow> (Some (now - timedelta_days days), Some now)
      | None \<Rightarrow> (Some (now - timedelta_days 30), Some now))"

text \<open>A plan with at least one of the three category flags set.\<close>

definition has_true_flag :: "fetch_plan \<Rightarrow> bool" where
  "has_true_flag p = (p ''needs_transactions'' = Some True \<or> p ''needs_goals'' = Some True
                      \<or> p ''needs_reminders'' = Some True)"

section \<open>Session store: \<open>ChatMemory\<close> (app/ai/memory/chat\_memory.py)\<close>

text \<open>
  Python strings are modelled as lists of the 8-bit \<open>char\<close> type, each element read as
  one code point in the range 0..255. Python integers are \<open>int\<close>.

  A conversation turn is one of the two langchain message classes the code constructs;
  \<open>metadata or {}\<close> turns a missing dictionary into the empty one.
\<close>

type_synonym metadata = "(string \<times> string) list"

datatype message =
    HumanMessage (content: string) (msg_metadata: metadata)
  | AIMessage (content: string) (msg_metadata: metadata)

record chat_doc =
  doc_userId :: string
  doc_type :: string
  doc_content :: string
  doc_metadata :: metadata
  doc_createdAt :: int

text \<open>
  The object state. \<open>db\<close> is \<open>None\<close> when the memory was built without a database;
  otherwise it holds the documents of the \<open>chat_history\<close> collection.
\<close>

record ChatMemory =
  user_id :: string
  db :: "chat_doc list option"
  max_messages :: int
  in_memory_messages :: "message list"

definition new_ChatMemory :: "string \<Rightarrow> chat_doc list option \<Rightarrow> int \<Rightarrow> ChatMemory" where
  "new_ChatMemory uid d mx =
     \<lparr>user_id = uid, db = d, max_messages = mx, in_memory_messages = []\<rparr>"

definition or_empty :: "metadata option \<Rightarrow> metadata" where
  "or_empty md = (case md of None \<Rightarrow> [] | Some m \<Rightarrow> m)"

definition make_message :: "string \<Rightarrow> string \<Rightarrow> metadata option \<Rightarrow> message" where
  "make_message c message_type md =
     (if message_type = ''human'' then HumanMessage c (or_empty md)
      else AIMessage c (or_empty md))"

text \<open>
  Python's \<open>xs[i:]\<close> for an arbitrary integer \<open>i\<close>: a negative start counts from the
  end and is clamped at the front, a non-negative one is clamped at the end. In
  particular \<open>xs[-0:]\<close> is \<open>xs[0:]\<close>, the whole list.
\<close>

definition slice_from :: "'a list \<Rightarrow> int \<Rightarrow> 'a list" where
  "slice_from xs i =
     (if i < 0 then drop (nat (max (int (length xs) + i) 0)) xs
      else drop (nat i) xs)"

text \<open>
  \<open>_persist_message\<close>: the insert may raise; the exception is logged and swallowed.
  \<open>insert_ok\<close> says whether the collaborator accepted the document, \<open>now\<close> is the
  clock reading used for \<open>createdAt\<close>.
\<close>

definition persist_message ::
  "ChatMemory \<Rightarrow> message \<Rightarrow> string \<Rightarrow> metadata option \<Rightarrow> int \<Rightarrow> bool \<Rightarrow> ChatMemory" where
  "persist_message m msg message_type md now insert_ok =
     (case db m of
        None \<Rightarrow> m
      | Some docs \<Rightarrow>
          if insert_ok then
            m\<lparr>db := Some (docs @ [\<lparr>doc_userId = user_id m, doc_type = message_type,
                                   doc_content = content msg, doc_metadata = or_empty md,
                                   doc_createdAt = now\<rparr>])\<rparr>
          else m)"

definition add_message ::
  "ChatMemory \<Rightarrow> string \<Rightarrow> string \<Rightarrow> metadata option \<Rightarrow> int \<Rightarrow> bool \<Rightarrow> ChatMemory" where
  "add_message m c message_type md now insert_ok =
     (let msg = make_message c message_type md;
          appended = in_memory_messages m @ [msg];
          trimmed = (if int (length appended) > max_messages m
                     then slice_from appended (- max_messages m)
                     else appended);
          m1 = m\<lparr>in_memory_messages := trimmed\<rparr>
      in if db m1 \<noteq> None then persist_message m1 msg message_type md now insert_ok else m1)"

definition get_conversation_history :: "ChatMemory \<Rightarrow> message list" where
  "get_conversation_history m = in_memory_messages m"

text \<open>One call of \<open>add_message\<close> per element, in order.\<close>

record turn =
  turn_content :: string
  turn_type :: string
  turn_metadata :: "metadata option"
  turn_now :: int
  turn_insert_ok :: bool

definition add_turn :: "ChatMemory \<Rightarrow> turn \<Rightarrow> ChatMemory" where
  "add_turn m t =
     add_message m (turn_content t) (turn_type t) (turn_metadata t) (turn_now t) (turn_insert_ok t)"

definition add_turns :: "ChatMemory \<Rightarrow> turn list \<Rightarrow> ChatMemory" where
  "add_turns m ts = foldl add_turn m ts"

definition turn_message :: "turn \<Rightarrow> message" where
  "turn_message t = make_message (turn_content t) (turn_type t) (turn_metadata t)"

text \<open>The last \<open>n\<close> elements of a list.\<close>

definition lastn :: "nat \<Rightarrow> 'a list \<Rightarrow> 'a list" where
  "lastn n xs = drop (length xs - n) xs"


section \<open>The data fetcher\<close>

text \<open>
  The values the fetcher handles are Python objects: documents read from the database and
  the dictionaries built from them. A dictionary is an association list in insertion
  order. An exception is represented by its text \<open>str(e)\<close>, the only thing the
  fetcher ever reads from one; a computation that may raise returns \<open>Inl\<close> of that text.

  A \<open>float\<close> is \<open>PFloat x\<close> for a finite binary64 number \<open>x\<close>, one of the two infinities
  \<open>PInf True\<close> and \<open>PInf False\<close> (the negative one), or \<open>PNan\<close>.
\<close>

datatype pyval =
    PNone
  | PBool bool
  | PInt int
  | PFloat rat
  | PInf bool
  | PNan
  | PStr string
  | PList "pyval list"
  | PDict "(pyval \<times> pyval) list"

type_synonym exn = string
type_synonym pydict = "(pyval \<times> pyval) list"

fun type_name :: "pyval \<Rightarrow> string" where
  "type_name PNone = ''NoneType''"
| "type_name (PBool b) = ''bool''"
| "type_name (PInt i) = ''int''"
| "type_name (PFloat x) = ''float''"
| "type_name (PInf b) = ''float''"
| "type_name PNan = ''float''"
| "type_name (PStr s) = ''str''"
| "type_name (PList xs) = ''list''"
| "type_name (PDict d) = ''dict''"

text \<open>Truth value of an object, as \<open>not\<close> and \<open>if\<close> read it.\<close>

fun truthy :: "pyval \<Rightarrow> bool" where
  "truthy PNone = False"
| "truthy (PBool b) = b"
| "truthy (PInt i) = (i \<noteq> 0)"
| "truthy (PFloat x) = (x \<noteq> 0)"
| "truthy (PInf b) = True"
| "truthy PNan = True"
| "truthy (PStr s) = (s \<noteq> [])"
| "truthy (PList xs) = (xs \<noteq> [])"
| "truthy (PDict d) = (d \<noteq> [])"

text \<open>
  Dictionary keys: finite numbers of equal value are the same key (\<open>1\<close>, \<open>1.0\<close> and
  \<open>True\<close>), every other key is equal to itself only, except that a not-a-number read from
  one document is never the key read from another; lists and dictionaries are unhashable.
\<close>

fun key_num :: "pyval \<Rightarrow> rat option" where
  "key_num (PBool b) = Some (if b then 1 else 0)"
| "key_num (PInt i) = Some (of_int i)"
| "key_num (PFloat x) = Some x"
| "key_num v = None"

definition key_eq :: "pyval \<Rightarrow> pyval \<Rightarrow> bool" where
  "key_eq a b =
     (case (key_num a, key_num b) of
        (Some x, Some y) \<Rightarrow> x = y
      | (None, None) \<Rightarrow> a = b \<and> a \<noteq> PNan
      | _ \<Rightarrow> False)"

fun hashable :: "pyval \<Rightarrow> bool" where
  "hashable (PList xs) = False"
| "hashable (PDict d) = False"
| "hashable v = True"

fun py_get :: "pydict \<Rightarrow> pyval \<Rightarrow> pyval option" where
  "py_get [] k = None"
| "py_get ((k', v) # d) k = (if key_eq k' k then Some v else py_get d k)"

fun py_set :: "pydict \<Rightarrow> pyval \<Rightarrow> pyval \<Rightarrow> pydict" where
  "py_set [] k v = [(k, v)]"
| "py_set ((k', v') # d) k v = (if key_eq k' k then (k', v) # d else (k', v') # py_set d k v)"

text \<open>\<open>d[key]\<close> raises \<open>KeyError\<close>, whose text is the \<open>repr\<close> of the key.\<close>

definition py_item :: "pydict \<Rightarrow> string \<Rightarrow> exn + pyval" where
  "py_item d key =
     (case py_get d (PStr key) of
        None \<Rightarrow> Inl ([CHR 0x27] @ key @ [CHR 0x27])
      | Some v \<Rightarrow> Inr v)"

definition py_get_default :: "pydict \<Rightarrow> string \<Rightarrow> pyval \<Rightarrow> pyval" where
  "py_get_default d key dflt = (case py_get d (PStr key) of None \<Rightarrow> dflt | Some v \<Rightarrow> v)"

text \<open>
  Arithmetic on numbers, as \<open>sum\<close>, \<open>+=\<close>, \<open>-\<close> and \<open>round\<close> use it here. Integers (and
  booleans) stay integers. As soon as one operand is a float the other is converted to a
  float, which raises \<open>OverflowError\<close> for an integer of magnitude \<open>2\<^sup>1\<^sup>0\<^sup>2\<^sup>4\<close> or more after
  rounding, and the result is a float: a finite result that rounds to \<open>2\<^sup>1\<^sup>0\<^sup>2\<^sup>4\<close> or more
  overflows to an infinity, infinities of opposite sign add up to not-a-number. Any other
  operand raises \<open>TypeError\<close>. A magnitude is \<open>2\<^sup>1\<^sup>0\<^sup>2\<^sup>4\<close> or more exactly when its binade
  is at least 1024.
\<close>

fun as_int :: "pyval \<Rightarrow> int option" where
  "as_int (PBool b) = Some (if b then 1 else 0)"
| "as_int (PInt i) = Some i"
| "as_int v = None"

definition float_result :: "rat \<Rightarrow> pyval" where
  "float_result x = (let y = fl x in if 1024 \<le> binade \<bar>y\<bar> then PInf (0 < y) else PFloat y)"

definition float_of_int :: "int \<Rightarrow> exn + pyval" where
  "float_of_int i =
     (let y = fl (of_int i)
      in if 1024 \<le> binade \<bar>y\<bar> then Inl ''int too large to convert to float''
         else Inr (PFloat y))"

fun as_float :: "pyval \<Rightarrow> (exn + pyval) option" where
  "as_float (PBool b) = Some (float_of_int (if b then 1 else 0))"
| "as_float (PInt i) = Some (float_of_int i)"
| "as_float (PFloat x) = Some (Inr (PFloat x))"
| "as_float (PInf b) = Some (Inr (PInf b))"
| "as_float PNan = Some (Inr PNan)"
| "as_float v = None"

fun float_neg :: "pyval \<Rightarrow> pyval" where
  "float_neg (PFloat x) = PFloat (- x)"
| "float_neg (PInf b) = PInf (\<not> b)"
| "float_neg v = v"

fun float_add :: "pyval \<Rightarrow> pyval \<Rightarrow> pyval" where
  "float_add (PFloat x) (PFloat y) = float_result (fl x + fl y)"
| "float_add (PFloat x) (PInf b) = PInf b"
| "float_add (PInf a) (PFloat y) = PInf a"
| "float_add (PInf a) (PInf b) = (if a = b then PInf a else PNan)"
| "float_add x y = PNan"

definition num_op :: "string \<Rightarrow> bool \<Rightarrow> pyval \<Rightarrow> pyval \<Rightarrow> exn + pyval" where
  "num_op opname subtract a b =
     (case (as_int a, as_int b) of
        (Some i, Some j) \<Rightarrow> Inr (PInt (if subtract then i - j else i + j))
      | _ \<Rightarrow>
        (case (as_float a, as_float b) of
           (Some fa, Some fb) \<Rightarrow>
             (case fa of
                Inl e \<Rightarrow> Inl e
              | Inr x \<Rightarrow>
                (case fb of
                   Inl e \<Rightarrow> Inl e
                 | Inr y \<Rightarrow> Inr (float_add x (if subtract then float_neg y else y))))
         | _ \<Rightarrow> Inl (''unsupported operand type(s) for '' @ opname @ '': '' @ [CHR 0x27]
                     @ type_name a @ [CHR 0x27] @ '' and '' @ [CHR 0x27] @ type_name b
                     @ [CHR 0x27])))"

definition py_add :: "string \<Rightarrow> pyval \<Rightarrow> pyval \<Rightarrow> exn + pyval" where
  "py_add opname a b = num_op opname False a b"

definition py_sub :: "pyval \<Rightarrow> pyval \<Rightarrow> exn + pyval" where
  "py_sub a b = num_op ''-'' True a b"

text \<open>
  \<open>round(x, 2)\<close>: an integer is returned as it is, a finite float is rounded to two
  places, an infinity and not-a-number are returned unchanged.
\<close>

definition round2 :: "rat \<Rightarrow> rat" where
  "round2 x = fl (sgn x * of_int (round_half_even (\<bar>x\<bar> * 100)) / 100)"

fun py_round2 :: "pyval \<Rightarrow> pyval" where
  "py_round2 (PFloat x) = PFloat (round2 x)"
| "py_round2 (PBool b) = PInt (if b then 1 else 0)"
| "py_round2 v = v"

text \<open>
  The three services are collaborators that read the database: they are parameters of
  the model, each one either raising or returning its documents. \<open>isoformat\<close> is the
  library's rendering of a date, a date being a number of microseconds.
\<close>

record DataFetcher =
  get_transactions_by_user ::
    "string \<Rightarrow> int option \<Rightarrow> int option \<Rightarrow> string option \<Rightarrow> int \<Rightarrow> exn + pydict list"
  get_goals_by_user :: "string \<Rightarrow> exn + pydict list"
  get_goal_summary :: "string \<Rightarrow> exn + pyval"
  get_reminders_by_user :: "string \<Rightarrow> exn + pydict list"
  count_reminders :: "string \<Rightarrow> exn + pyval"
  isoformat :: "int \<Rightarrow> string"

definition MAX_CONTEXT_ITEMS :: nat where
  "MAX_CONTEXT_ITEMS = 10"

text \<open>
  \<open>sum(t["amount"] for t in transactions if t.get("type") == kind)\<close>, from \<open>acc\<close>, adding
  from left to right (from CPython 3.12 on, the rounding errors of a sum of floats are
  compensated, and a total may differ in its last bits).
\<close>

fun sum_amounts :: "string \<Rightarrow> pyval \<Rightarrow> pydict list \<Rightarrow> exn + pyval" where
  "sum_amounts kind acc [] = Inr acc"
| "sum_amounts kind acc (t # ts) =
     (if py_get t (PStr ''type'') = Some (PStr kind) then
        (case py_item t ''amount'' of
           Inl e \<Rightarrow> Inl e
         | Inr a \<Rightarrow>
           (case py_add ''+'' acc a of
              Inl e \<Rightarrow> Inl e
            | Inr acc' \<Rightarrow> sum_amounts kind acc' ts))
      else sum_amounts kind acc ts)"

text \<open>
  The category breakdown: one entry per category, holding the number of transactions and
  the sum of their amounts, in order of first appearance.
\<close>

fun bump_category :: "(pyval \<times> int \<times> pyval) list \<Rightarrow> pyval \<Rightarrow> pyval
    \<Rightarrow> exn + (pyval \<times> int \<times> pyval) list" where
  "bump_category [] cat amount =
     (case py_add ''+='' (PFloat 0) amount of
        Inl e \<Rightarrow> Inl e
      | Inr s \<Rightarrow> Inr [(cat, 1, s)])"
| "bump_category ((c, n, s) # rest) cat amount =
     (if key_eq c cat then
        (case py_add ''+='' s amount of
           Inl e \<Rightarrow> Inl e
         | Inr s' \<Rightarrow> Inr ((c, n + 1, s') # rest))
      else
        (case bump_category rest cat amount of
           Inl e \<Rightarrow> Inl e
         | Inr rest' \<Rightarrow> Inr ((c, n, s) # rest')))"

fun category_breakdown :: "(pyval \<times> int \<times> pyval) list \<Rightarrow> pydict list
    \<Rightarrow> exn + (pyval \<times> int \<times> pyval) list" where
  "category_breakdown categories [] = Inr categories"
| "category_breakdown categories (t # ts) =
     (let cat = py_get_default t ''category'' (PStr ''Other'') in
      if \<not> hashable cat then
        Inl (''unhashable type: '' @ [CHR 0x27] @ type_name cat @ [CHR 0x27])
      else
        (case bump_category categories cat (py_get_default t ''amount'' (PInt 0)) of
           Inl e \<Rightarrow> Inl e
         | Inr categories' \<Rightarrow> category_breakdown categories' ts))"

definition category_entry :: "pyval \<times> int \<times> pyval \<Rightarrow> pyval \<times> pyval" where
  "category_entry e =
     (case e of (cat, n, s) \<Rightarrow> (cat, PDict [(PStr ''count'', PInt n), (PStr ''amount'', s)]))"

definition iso_or_none :: "DataFetcher \<Rightarrow> int option \<Rightarrow> pyval" where
  "iso_or_none self d = (case d of None \<Rightarrow> PNone | Some t \<Rightarrow> PStr (isoformat self t))"

text \<open>The body of the \<open>try\<close> block of \<open>_fetch_transactions\<close>.\<close>

definition transactions_payload :: "DataFetcher \<Rightarrow> string \<Rightarrow> int option \<Rightarrow> int option
    \<Rightarrow> string \<Rightarrow> exn + pyval" where
  "transactions_payload self uid start_date end_date query =
     (case get_transactions_by_user self uid start_date end_date
             (if query = [] then None else Some query) (int MAX_CONTEXT_ITEMS) of
        Inl e \<Rightarrow> Inl e
      | Inr transactions \<Rightarrow>
     (case sum_amounts ''Income'' (PInt 0) transactions of
        Inl e \<Rightarrow> Inl e
      | Inr total_income \<Rightarrow>
     (case sum_amounts ''Expense'' (PInt 0) transactions of
        Inl e \<Rightarrow> Inl e
      | Inr total_expense \<Rightarrow>
     (case category_breakdown [] transactions of
        Inl e \<Rightarrow> Inl e
      | Inr categories \<Rightarrow>
     (case py_sub total_income total_expense of
        Inl e \<Rightarrow> Inl e
      | Inr net \<Rightarrow>
        Inr (PDict
          [(PStr ''transactions'', PList (map PDict transactions)),
           (PStr ''summary'', PDict
             [(PStr ''total_transactions'', PInt (int (length transactions))),
              (PStr ''total_income'', py_round2 total_income),
              (PStr ''total_expense'', py_round2 total_expense),
              (PStr ''net'', py_round2 net),
              (PStr ''categories'', PDict (map category_entry categories)),
              (PStr ''date_range'', PDict
                [(PStr ''start'', iso_or_none self start_date),
                 (PStr ''end'', iso_or_none self end_date)])])]))))))"

definition fetch_transactions :: "DataFetcher \<Rightarrow> string \<Rightarrow> int option \<Rightarrow> int option
    \<Rightarrow> string \<Rightarrow> exn + pyval" where
  "fetch_transactions self uid start_date end_date query =
     (case transactions_payload self uid start_date end_date query of
        Inr payload \<Rightarrow> Inr payload
      | Inl e \<Rightarrow>
          Inr (PDict [(PStr ''error'', PStr e), (PStr ''transactions'', PList []),
                      (PStr ''summary'', PDict [])]))"

text \<open>The body of the \<open>try\<close> block of \<open>_fetch_goals\<close>.\<close>

definition goals_payload :: "DataFetcher \<Rightarrow> string \<Rightarrow> exn + pyval" where
  "goals_payload self uid =
     (case get_goals_by_user self uid of
        Inl e \<Rightarrow> Inl e
      | Inr goals \<Rightarrow>
        (case get_goal_summary self uid of
           Inl e \<Rightarrow> Inl e
         | Inr summary \<Rightarrow>
             Inr (PDict [(PStr ''goals'', PList (map PDict (take MAX_CONTEXT_ITEMS goals))),
                         (PStr ''summary'', summary)])))"

definition fetch_goals :: "DataFetcher \<Rightarrow> string \<Rightarrow> exn + pyval" where
  "fetch_goals self uid =
     (case goals_payload self uid of
        Inr payload \<Rightarrow> Inr payload
      | Inl e \<Rightarrow>
          Inr (PDict [(PStr ''error'', PStr e), (PStr ''goals'', PList []),
                      (PStr ''summary'', PDict [])]))"

text \<open>A list comprehension whose condition may raise.\<close>

fun filter_raising :: "('a \<Rightarrow> exn + bool) \<Rightarrow> 'a list \<Rightarrow> exn + 'a list" where
  "filter_raising p [] = Inr []"
| "filter_raising p (x # xs) =
     (case p x of
        Inl e \<Rightarrow> Inl e
      | Inr b \<Rightarrow>
        (case filter_raising p xs of
           Inl e \<Rightarrow> Inl e
         | Inr ys \<Rightarrow> Inr (if b then x # ys else ys)))"

definition is_upcoming :: "pydict \<Rightarrow> exn + bool" where
  "is_upcoming r =
     (case py_item r ''isOverdue'' of
        Inl e \<Rightarrow> Inl e
      | Inr is_overdue \<Rightarrow>
          if truthy is_overdue then Inr False
          else (case py_item r ''isToday'' of
                  Inl e \<Rightarrow> Inl e
                | Inr t \<Rightarrow> Inr (\<not> truthy t)))"

definition has_flag :: "string \<Rightarrow> pydict \<Rightarrow> exn + bool" where
  "has_flag key r = (case py_item r key of Inl e \<Rightarrow> Inl e | Inr v \<Rightarrow> Inr (truthy v))"

definition reminders_payload :: "DataFetcher \<Rightarrow> string \<Rightarrow> exn + pyval" where
  "reminders_payload self uid =
     (case get_reminders_by_user self uid of
        Inl e \<Rightarrow> Inl e
      | Inr reminders \<Rightarrow>
     (case count_reminders self uid of
        Inl e \<Rightarrow> Inl e
      | Inr counts \<Rightarrow>
     (case filter_raising is_upcoming reminders of
        Inl e \<Rightarrow> Inl e
      | Inr upcoming \<Rightarrow>
     (case filter_raising (has_flag ''isToday'') reminders of
        Inl e \<Rightarrow> Inl e
      | Inr today \<Rightarrow>
     (case filter_raising (has_flag ''isOverdue'') reminders of
        Inl e \<Rightarrow> Inl e
      | Inr overdue \<Rightarrow>
        Inr (PDict
          [(PStr ''reminders'', PDict
             [(PStr ''today'', PList (map PDict (take MAX_CONTEXT_ITEMS today))),
              (PStr ''upcoming'', PList (map PDict (take MAX_CONTEXT_ITEMS upcoming))),
              (PStr ''overdue'', PList (map PDict (take MAX_CONTEXT_ITEMS overdue)))]),
           (PStr ''summary'', counts)]))))))"

definition fetch_reminders :: "DataFetcher \<Rightarrow> string \<Rightarrow> exn + pyval" where
  "fetch_reminders self uid =
     (case reminders_payload self uid of
        Inr payload \<Rightarrow> Inr payload
      | Inl e \<Rightarrow>
          Inr (PDict [(PStr ''error'', PStr e),
                      (PStr ''reminders'', PDict [(PStr ''today'', PList []),
                         (PStr ''upcoming'', PList []), (PStr ''overdue'', PList [])]),
                      (PStr ''summary'', PDict [])]))"

text \<open>
  \<open>_fetch_general\<close> awaits its three calls together; the first of them to raise, taken
  here in the order they are passed, is the exception of the block.
\<close>

definition general_payload :: "DataFetcher \<Rightarrow> string \<Rightarrow> int option \<Rightarrow> int option
    \<Rightarrow> exn + pyval" where
  "general_payload self uid start_date end_date =
     (case get_transactions_by_user self uid start_date end_date None 5 of
        Inl e \<Rightarrow> Inl e
      | Inr transactions \<Rightarrow>
        (case get_goal_summary self uid of
           Inl e \<Rightarrow> Inl e
         | Inr goal_summary \<Rightarrow>
           (case count_reminders self uid of
              Inl e \<Rightarrow> Inl e
            | Inr reminder_counts \<Rightarrow>
                Inr (PDict [(PStr ''recent_transactions'', PList (map PDict transactions)),
                            (PStr ''goal_summary'', goal_summary),
                            (PStr ''reminder_summary'', reminder_counts)]))))"

definition fetch_general :: "DataFetcher \<Rightarrow> string \<Rightarrow> int option \<Rightarrow> int option
    \<Rightarrow> exn + pyval" where
  "fetch_general self uid start_date end_date =
     (case general_payload self uid start_date end_date of
        Inr payload \<Rightarrow> Inr payload
      | Inl e \<Rightarrow> Inr (PDict [(PStr ''error'', PStr e)]))"

text \<open>
  \<open>fetch_intent_data\<close>. \<open>now\<close> is the text of \<open>datetime.now().isoformat()\<close> at the call.
  The \<open>fetchers\<close> table maps the four known intents to their helper; any other intent
  returns the initial result.
\<close>

definition fetchers :: "DataFetcher \<Rightarrow> string \<Rightarrow> int option \<Rightarrow> int option \<Rightarrow> string
    \<Rightarrow> string \<Rightarrow> (exn + pyval) option" where
  "fetchers self uid start_date end_date query intent =
     (if intent = ''transactions'' then Some (fetch_transactions self uid start_date end_date query)
      else if intent = ''goals'' then Some (fetch_goals self uid)
      else if intent = ''reminders'' then Some (fetch_reminders self uid)
      else if intent = ''general'' then Some (fetch_general self uid start_date end_date)
      else None)"

definition fetch_intent_data :: "DataFetcher \<Rightarrow> string \<Rightarrow> string \<Rightarrow> string
    \<Rightarrow> int option \<times> int option \<Rightarrow> string \<Rightarrow> exn + pyval" where
  "fetch_intent_data self now uid intent time_range query =
     (let result = [(PStr ''intent'', PStr intent), (PStr ''user_id'', PStr uid),
                    (PStr ''timestamp'', PStr now), (PStr ''data'', PDict [])]
      in case time_range of (start_date, end_date) \<Rightarrow>
        (case fetchers self uid start_date end_date query intent of
           None \<Rightarrow> Inr (PDict result)
         | Some fetched \<Rightarrow>
           (case fetched of
              Inr payload \<Rightarrow> Inr (PDict (py_set result (PStr ''data'') payload))
            | Inl e \<Rightarrow> Inr (PDict (py_set result (PStr ''error'') (PStr e))))))"





definition entry_field :: "pyval \<Rightarrow> string \<Rightarrow> pyval option" where
  "entry_field entry key = (case entry of PDict d \<Rightarrow> py_get d (PStr key) | _ \<Rightarrow> None)"


text \<open>
  Three fetchers in each of which one collaborator raises while the others can be read:
  one income, one expense, one goal and one reminder due today.
\<close>

definition failing_goals_fetcher :: DataFetcher where
  "failing_goals_fetcher =
     \<lparr>get_transactions_by_user = (\<lambda>uid start_date end_date search_text limit. Inr
          [[(PStr ''type'', PStr ''Income''), (PStr ''amount'', PFloat 2000),
            (PStr ''category'', PStr ''Salary'')],
           [(PStr ''type'', PStr ''Expense''), (PStr ''amount'', PFloat 12.5),
            (PStr ''category'', PStr ''Food'')]]),
      get_goals_by_user = (\<lambda>uid. Inl ''goals store unavailable''),
      get_goal_summary = (\<lambda>uid. Inr (PDict [(PStr ''totalGoals'', PInt 0)])),
      get_reminders_by_user = (\<lambda>uid. Inr
          [[(PStr ''title'', PStr ''Rent''), (PStr ''isOverdue'', PBool False),
            (PStr ''isToday'', PBool True)]]),
      count_reminders = (\<lambda>uid. Inr (PDict [(PStr ''total'', PInt 1)])),
      isoformat = (\<lambda>t. ''2025-11-04T00:00:00'')\<rparr>"




section \<open>The orchestrator\<close>








text \<open>
  The orchestrator keeps one \<open>ChatMemory\<close> per user, created on first use with the
  default cap of 50 messages. All of them write to the one database: a session is handed
  out with its current contents, and the contents are taken back after a write.
\<close>

record AIOrchestrator =
  orch_db :: "chat_doc list option"
  user_sessions :: "string \<rightharpoonup> ChatMemory"


definition put_user_memory :: "AIOrchestrator \<Rightarrow> string \<Rightarrow> ChatMemory \<Rightarrow> AIOrchestrator" where
  "put_user_memory self uid memory =
     self\<lparr>orch_db := db memory, user_sessions := (user_sessions self)(uid \<mapsto> memory)\<rparr>"






text \<open>The conversation history of a user, empty before the first query.\<close>

definition history_of :: "AIOrchestrator \<Rightarrow> string \<Rightarrow> message list" where
  "history_of self uid =
     (case user_sessions self uid of
        None \<Rightarrow> []
      | Some memory \<Rightarrow> get_conversation_history memory)"




section \<open>The masker of sensitive values\<close>

text \<open>
  The regular expressions of the masker are matched by backtracking, as the \<open>re\<close> module
  does: a match of an expression from a position is the first of its possible matches in
  the order of preference, in which a repetition tries one more round before it stops
  and an alternative tries its branches from left to right.

  A character class is a list of members, possibly negated. In the Latin-1 range the
  digits \<open>\d\<close> are \<open>0..9\<close>; the white space \<open>\s\<close> is the code points 9 to 13, 28 to
  32, 133 and 160; the word characters \<open>\w\<close> are the letters, digits and numeric characters
  listed in \<open>is_word\<close>, and the underscore.
\<close>

definition is_digit :: "char \<Rightarrow> bool" where
  "is_digit c = (let n = (of_char c :: nat) in 48 \<le> n \<and> n \<le> 57)"

definition is_space :: "char \<Rightarrow> bool" where
  "is_space c =
     (let n = (of_char c :: nat)
      in (9 \<le> n \<and> n \<le> 13) \<or> (28 \<le> n \<and> n \<le> 32) \<or> n = 133 \<or> n = 160)"

definition is_word :: "char \<Rightarrow> bool" where
  "is_word c =
     (let n = (of_char c :: nat)
      in (48 \<le> n \<and> n \<le> 57) \<or> (65 \<le> n \<and> n \<le> 90) \<or> n = 95 \<or> (97 \<le> n \<and> n \<le> 122)
         \<or> n = 170 \<or> n = 178 \<or> n = 179 \<or> n = 181 \<or> n = 185 \<or> n = 186
         \<or> (188 \<le> n \<and> n \<le> 190) \<or> (192 \<le> n \<and> n \<le> 214) \<or> (216 \<le> n \<and> n \<le> 246)
         \<or> (248 \<le> n \<and> n \<le> 255))"

text \<open>
  The upper-case letter of a lower-case one, where it lies in the range: \<open>a..z\<close> and
  \<open>U+00E0..U+00FE\<close> without the division sign \<open>U+00F7\<close>.
\<close>

definition upper_char :: "char \<Rightarrow> char" where
  "upper_char c =
     (let n = (of_char c :: nat)
      in if (97 \<le> n \<and> n \<le> 122) \<or> (224 \<le> n \<and> n \<le> 254 \<and> n \<noteq> 247)
         then char_of (n - 32) else c)"

datatype member =
    One char
  | Span char char
  | Digits
  | Spaces

fun has_member :: "member \<Rightarrow> char \<Rightarrow> bool" where
  "has_member (One a) c = (c = a)"
| "has_member (Span a b) c = ((of_char a :: nat) \<le> of_char c \<and> (of_char c :: nat) \<le> of_char b)"
| "has_member Digits c = is_digit c"
| "has_member Spaces c = is_space c"

text \<open>
  Under \<open>IGNORECASE\<close> a character belongs to a class when it or its other case does.
\<close>

definition in_class :: "bool \<Rightarrow> member list \<Rightarrow> char \<Rightarrow> bool" where
  "in_class ignorecase members c =
     (list_ex (\<lambda>m. has_member m c) members
      \<or> (ignorecase \<and> (list_ex (\<lambda>m. has_member m (lower_char c)) members
                          \<or> list_ex (\<lambda>m. has_member m (upper_char c)) members)))"

text \<open>
  The expressions: a class (negated when the flag is set), sequence, alternative, greedy
  repetition between a lower and an optional upper bound, the capturing group, the word
  boundary \<open>\b\<close>, the negative look-ahead and look-behind for one character of a class,
  the end anchor \<open>$\<close>, and the empty expression.
\<close>

datatype rx =
    Chars bool "member list"
  | Seq rx rx
  | Alt rx rx
  | Rep rx nat "nat option"
  | Group rx
  | WordBoundary
  | NotAhead "member list"
  | NotBehind "member list"
  | EndAnchor
  | Eps

text \<open>
  A state of the matcher is the current position and the span of the group, if it took
  part. \<open>rounds f lo hi st\<close> lists the states after at least \<open>lo\<close> and at most \<open>lo + hi\<close>
  rounds of \<open>f\<close>, more rounds first.
\<close>

type_synonym rx_state = "nat \<times> (nat \<times> nat) option"

fun rounds :: "(rx_state \<Rightarrow> rx_state list) \<Rightarrow> nat \<Rightarrow> nat \<Rightarrow> rx_state \<Rightarrow> rx_state list" where
  "rounds f 0 0 st = [st]"
| "rounds f 0 (Suc extra) st = concat (map (rounds f 0 extra) (f st)) @ [st]"
| "rounds f (Suc lo) extra st = concat (map (rounds f lo extra) (f st))"

definition at_boundary :: "string \<Rightarrow> nat \<Rightarrow> bool" where
  "at_boundary s i =
     ((0 < i \<and> i \<le> length s \<and> is_word (s ! (i - 1))) \<noteq> (i < length s \<and> is_word (s ! i)))"

text \<open>
  An unbounded repetition is cut at the length of the text: every round of the
  repetitions used here consumes a character.
\<close>

primrec rx_match :: "bool \<Rightarrow> string \<Rightarrow> rx \<Rightarrow> rx_state \<Rightarrow> rx_state list" where
  "rx_match ic s (Chars negated members) =
     (\<lambda>st. if fst st < length s \<and> (in_class ic members (s ! fst st) \<noteq> negated)
           then [(fst st + 1, snd st)] else [])"
| "rx_match ic s (Seq r1 r2) = (\<lambda>st. concat (map (rx_match ic s r2) (rx_match ic s r1 st)))"
| "rx_match ic s (Alt r1 r2) = (\<lambda>st. rx_match ic s r1 st @ rx_match ic s r2 st)"
| "rx_match ic s (Rep r lo hi) =
     rounds (rx_match ic s r) lo (case hi of None \<Rightarrow> length s | Some h \<Rightarrow> h - lo)"
| "rx_match ic s (Group r) =
     (\<lambda>st. map (\<lambda>st'. (fst st', Some (fst st, fst st'))) (rx_match ic s r st))"
| "rx_match ic s WordBoundary = (\<lambda>st. if at_boundary s (fst st) then [st] else [])"
| "rx_match ic s (NotAhead members) =
     (\<lambda>st. if fst st < length s \<and> in_class ic members (s ! fst st) then [] else [st])"
| "rx_match ic s (NotBehind members) =
     (\<lambda>st. if 0 < fst st \<and> fst st \<le> length s \<and> in_class ic members (s ! (fst st - 1))
           then [] else [st])"
| "rx_match ic s EndAnchor =
     (\<lambda>st. if fst st = length s \<or> (fst st + 1 = length s \<and> s ! fst st = CHR 0x0A)
           then [st] else [])"
| "rx_match ic s Eps = (\<lambda>st. [st])"

text \<open>
  Scanning for the successive matches of an expression, as \<open>findall\<close> and \<open>sub\<close> do: the
  search for the next match starts where the last one ended, and directly after an empty
  match the match found at that position must not be empty again. A match is recorded
  with its start, its end and the span of its group.
\<close>

primrec rx_search :: "bool \<Rightarrow> string \<Rightarrow> rx \<Rightarrow> nat \<Rightarrow> bool \<Rightarrow> nat \<Rightarrow> nat
    \<Rightarrow> (nat \<times> rx_state) option" where
  "rx_search ic s r start must_advance i 0 = None"
| "rx_search ic s r start must_advance i (Suc n) =
     (case find (\<lambda>st. \<not> (must_advance \<and> fst st = start)) (rx_match ic s r (i, None)) of
        Some st \<Rightarrow> Some (i, st)
      | None \<Rightarrow> rx_search ic s r start must_advance (Suc i) n)"

function rx_scan :: "bool \<Rightarrow> string \<Rightarrow> rx \<Rightarrow> nat \<Rightarrow> bool
    \<Rightarrow> (nat \<times> nat \<times> (nat \<times> nat) option) list" where
  "rx_scan ic s r start must_advance =
     (if length s < start then []
      else case rx_search ic s r start must_advance start (length s + 1 - start) of
        None \<Rightarrow> []
      | Some (i, e, cap) \<Rightarrow>
          if start < e then (i, e, cap) # rx_scan ic s r e (e = i)
          else if must_advance then [(i, e, cap)]
          else (i, e, cap) # rx_scan ic s r start True)"
  by pat_completeness auto
termination
  by (relation "measure (\<lambda>(ic, s, r, start, must_advance).
        2 * (length s + 1 - start) + (if must_advance then 0 else 1))") auto

declare rx_scan.simps [simp del]

definition substring :: "string \<Rightarrow> nat \<Rightarrow> nat \<Rightarrow> string" where
  "substring s i e = take (e - i) (drop i s)"

fun has_group :: "rx \<Rightarrow> bool" where
  "has_group (Group r) = True"
| "has_group (Seq r1 r2) = (has_group r1 \<or> has_group r2)"
| "has_group (Alt r1 r2) = (has_group r1 \<or> has_group r2)"
| "has_group (Rep r lo hi) = has_group r"
| "has_group r = False"

text \<open>
  \<open>findall\<close> lists the text of the group when the expression has one (empty when the
  group took no part), and the text of the whole match otherwise.
\<close>

definition rx_findall :: "bool \<Rightarrow> rx \<Rightarrow> string \<Rightarrow> string list" where
  "rx_findall ic r s =
     map (\<lambda>(i, e, cap).
            if has_group r then (case cap of None \<Rightarrow> [] | Some (a, b) \<Rightarrow> substring s a b)
            else substring s i e)
         (rx_scan ic s r 0 False)"

text \<open>
  \<open>sub\<close> with a function: every match, or the first \<open>count\<close> of them, is replaced by what
  the function returns for its text; an exception of the function ends the substitution.
\<close>

fun sub_pieces :: "(string \<Rightarrow> exn + string) \<Rightarrow> string \<Rightarrow> nat
    \<Rightarrow> (nat \<times> nat \<times> (nat \<times> nat) option) list \<Rightarrow> exn + string" where
  "sub_pieces f s pos [] = Inr (drop pos s)"
| "sub_pieces f s pos ((i, e, cap) # ms) =
     (case f (substring s i e) of
        Inl x \<Rightarrow> Inl x
      | Inr replacement \<Rightarrow>
        (case sub_pieces f s e ms of
           Inl x \<Rightarrow> Inl x
         | Inr rest \<Rightarrow> Inr (substring s pos i @ replacement @ rest)))"

definition rx_sub :: "bool \<Rightarrow> rx \<Rightarrow> (string \<Rightarrow> exn + string) \<Rightarrow> nat option \<Rightarrow> string
    \<Rightarrow> exn + string" where
  "rx_sub ic r f count s =
     (let found = rx_scan ic s r 0 False
      in sub_pieces f s 0 (case count of None \<Rightarrow> found | Some n \<Rightarrow> take n found))"

text \<open>Building expressions from lists, and from the characters of a literal.\<close>

definition seqs :: "rx list \<Rightarrow> rx" where
  "seqs rs = foldr Seq rs Eps"

fun alts :: "rx list \<Rightarrow> rx" where
  "alts [] = Chars False []"
| "alts [r] = r"
| "alts (r # rs) = Alt r (alts rs)"

definition lit :: "string \<Rightarrow> rx" where
  "lit cs = seqs (map (\<lambda>c. Chars False [One c]) cs)"

definition digit :: rx where
  "digit = Chars False [Digits]"

definition space :: rx where
  "space = Chars False [Spaces]"

definition optional :: "rx \<Rightarrow> rx" where
  "optional r = Rep r 0 (Some 1)"

text \<open>
  The masking functions. \<open>re.sub(r'\D', '', m)\<close> keeps the digits of \<open>m\<close>; \<open>m.split(c)\<close>
  cuts \<open>m\<close> at every \<open>c\<close>, and \<open>m.split(c, 1)\<close> at the first one only.
\<close>

definition digits_of :: "string \<Rightarrow> string" where
  "digits_of m = filter is_digit m"

definition stars :: "int \<Rightarrow> string" where
  "stars n = replicate (nat n) CHR ''*''"

fun py_split :: "char \<Rightarrow> string \<Rightarrow> string list" where
  "py_split c [] = [[]]"
| "py_split c (x # xs) =
     (if x = c then [] # py_split c xs
      else (case py_split c xs of
              [] \<Rightarrow> [[x]]
            | part # parts \<Rightarrow> (x # part) # parts))"

definition mask_phone :: "string \<Rightarrow> exn + string" where
  "mask_phone m =
     (let digits = digits_of m
      in if 8 \<le> length digits
         then Inr (take 4 digits @ stars (int (length digits) - 6) @ slice_from digits (- 2))
         else Inr ''****'')"

definition mask_card :: "string \<Rightarrow> exn + string" where
  "mask_card m =
     (let digits = digits_of m
      in if 12 \<le> length digits
         then Inr (take 4 digits @ stars (int (length digits) - 8) @ slice_from digits (- 4))
         else Inr ''****'')"

definition mask_ssn :: "string \<Rightarrow> exn + string" where
  "mask_ssn m =
     (let parts = py_split CHR ''-'' m
      in if length parts = 3 then Inr (parts ! 0 @ ''-**-'' @ parts ! 2)
         else Inr ''***-**-****'')"

definition mask_email :: "string \<Rightarrow> exn + string" where
  "mask_email m =
     (if CHR ''@'' \<notin> set m then Inl ''not enough values to unpack (expected 2, got 1)''
      else
        let local = takeWhile (\<lambda>c. c \<noteq> CHR ''@'') m;
            domain = drop (length local + 1) m
        in if length local \<le> 2 then Inr (stars (int (length local)) @ ''@'' @ domain)
           else Inr (take 2 local @ stars (int (length local) - 2) @ ''@'' @ domain))"

definition mask_account_static :: "string \<Rightarrow> string" where
  "mask_account_static m =
     (if 6 < length m then take 4 m @ stars (int (length m) - 6) @ slice_from m (- 2)
      else take 2 m @ ''****'')"

definition ACCOUNT_TOKEN :: rx where
  "ACCOUNT_TOKEN =
     seqs [Rep (Chars False [Span CHR ''A'' CHR ''Z'']) 0 (Some 4), digit,
           Rep (Chars False [Span CHR ''A'' CHR ''Z'', Span CHR ''0'' CHR ''9'']) 5 (Some 19)]"

definition mask_account :: "string \<Rightarrow> exn + string" where
  "mask_account m = rx_sub True ACCOUNT_TOKEN (\<lambda>x. Inr (mask_account_static x)) (Some 1) m"

definition mask_password :: "string \<Rightarrow> exn + string" where
  "mask_password m =
     rx_sub False (seqs [Group (Rep (Chars True [Spaces]) 1 None), EndAnchor])
       (\<lambda>x. Inr ''********'') None m"

text \<open>
  The pattern table, in the order of the source: label, \<open>IGNORECASE\<close> flag, expression
  and masking function.
\<close>

definition CREDIT_CARD :: rx where
  "CREDIT_CARD =
     seqs [WordBoundary,
           Rep (seqs [digit, optional (Chars False [One CHR '' '', One CHR ''-''])]) 15 (Some 16),
           WordBoundary]"

definition SSN :: rx where
  "SSN =
     seqs [WordBoundary, Rep digit 3 (Some 3), lit ''-'', Rep digit 2 (Some 2), lit ''-'',
           Rep digit 4 (Some 4), WordBoundary]"

definition PHONE :: rx where
  "PHONE =
     seqs [NotBehind [Digits],
           optional (seqs [lit ''+91'', optional (Chars False [One CHR ''-'', Spaces])]),
           Chars False [Span CHR ''6'' CHR ''9''], Rep digit 9 (Some 9),
           NotAhead [Digits]]"

definition EMAIL :: rx where
  "EMAIL =
     seqs [WordBoundary,
           Rep (Chars False [Span CHR ''A'' CHR ''Z'', Span CHR ''a'' CHR ''z'',
                             Span CHR ''0'' CHR ''9'', One CHR ''.'', One CHR ''_'',
                             One CHR ''%'', One CHR ''+'', One CHR ''-'']) 1 None,
           lit ''@'',
           Rep (Chars False [Span CHR ''A'' CHR ''Z'', Span CHR ''a'' CHR ''z'',
                             Span CHR ''0'' CHR ''9'', One CHR ''.'', One CHR ''-'']) 1 None,
           lit ''.'',
           Rep (Chars False [Span CHR ''A'' CHR ''Z'', Span CHR ''a'' CHR ''z'']) 2 None,
           WordBoundary]"

definition ACCOUNT_NUMBER :: rx where
  "ACCOUNT_NUMBER =
     seqs [WordBoundary,
           alts [seqs [lit ''account'', Rep space 0 None,
                       alts [seqs [lit ''no'', optional (lit ''.'')], lit ''number'',
                             lit ''#'', lit '':'']],
                 seqs [lit ''a/c'', Rep space 0 None, optional (lit '':'')],
                 seqs [lit ''acc'', Rep space 0 None, optional (lit '':'')]],
           Rep space 0 None,
           Group ACCOUNT_TOKEN,
           WordBoundary]"

definition PASSWORD :: rx where
  "PASSWORD =
     seqs [alts [lit ''password'', lit ''passwd'', lit ''pwd''],
           Rep space 0 None,
           optional (alts [lit ''is'', lit '':'', lit ''='']),
           Rep space 0 None,
           Group (Rep (Chars True [Spaces]) 1 None)]"

definition PATTERNS :: "(string \<times> bool \<times> rx \<times> (string \<Rightarrow> exn + string)) list" where
  "PATTERNS =
     [(''credit_card'', False, CREDIT_CARD, mask_card),
      (''ssn'', False, SSN, mask_ssn),
      (''phone'', False, PHONE, mask_phone),
      (''email'', False, EMAIL, mask_email),
      (''account_number'', True, ACCOUNT_NUMBER, mask_account),
      (''password'', True, PASSWORD, mask_password)]"

record MaskedMessage =
  original :: string
  masked :: string
  pii_found :: "(string \<times> string list) list"
  has_sensitive_info :: bool

text \<open>
  \<open>mask\<close>: the patterns are applied in turn to the text as masked so far; a pattern with
  no match leaves it alone, any other records what \<open>findall\<close> returned under its label
  and replaces every match by its masked form.
\<close>

fun set_found :: "(string \<times> string list) list \<Rightarrow> string \<Rightarrow> string list
    \<Rightarrow> (string \<times> string list) list" where
  "set_found [] label matches = [(label, matches)]"
| "set_found ((l, ms) # found) label matches =
     (if l = label then (l, matches) # found else (l, ms) # set_found found label matches)"

fun mask_loop :: "(string \<times> bool \<times> rx \<times> (string \<Rightarrow> exn + string)) list \<Rightarrow> string
    \<Rightarrow> (string \<times> string list) list \<Rightarrow> exn + string \<times> (string \<times> string list) list" where
  "mask_loop [] masked_text found = Inr (masked_text, found)"
| "mask_loop ((label, ic, pattern, mask_fn) # rest) masked_text found =
     (let matches = rx_findall ic pattern masked_text
      in if matches = [] then mask_loop rest masked_text found
         else (case rx_sub ic pattern mask_fn None masked_text of
                 Inl e \<Rightarrow> Inl e
               | Inr replaced \<Rightarrow>
                   mask_loop rest replaced
                     (set_found found label matches)))"

definition mask :: "string \<Rightarrow> exn + MaskedMessage" where
  "mask text =
     (case mask_loop PATTERNS text [] of
        Inl e \<Rightarrow> Inl e
      | Inr (masked_text, found) \<Rightarrow>
          Inr \<lparr>original = text, masked = masked_text, pii_found = found,
               has_sensitive_info = (found \<noteq> [])\<rparr>)"
section \<open>Properties of the intent classifier\<close>

lemma all_true_flags:
  "all_true ''needs_transactions'' = Some True"
  "all_true ''needs_goals'' = Some True"
  "all_true ''needs_reminders'' = Some True"
  by (simp_all add: all_true_def)

text \<open>
  Claim C3 (broad-phrase override). Whenever the lower-cased query contains one of the
  phrases of \<open>FETCH_ALL_PHRASES\<close>, the fetch plan has all three flags set, whatever
  else the query contains.
\<close>

theorem fetch_all_override:
  assumes "\<exists>phrase \<in> set FETCH_ALL_PHRASES. contains phrase (lower query)"
  shows "get_intents_for_fetch query ''needs_transactions'' = Some True
       \<and> get_intents_for_fetch query ''needs_goals'' = Some True
       \<and> get_intents_for_fetch query ''needs_reminders'' = Some True"
proof -
  from assms have "list_ex (\<lambda>phrase. contains phrase (lower query)) FETCH_ALL_PHRASES"
    by (simp add: list_ex_iff)
  then have "get_intents_for_fetch query = all_true"
    by (simp add: get_intents_for_fetch_def)
  then show ?thesis by (simp add: all_true_flags)
qed

theorem fetch_all_override_witness:
  "(\<exists>phrase \<in> set FETCH_ALL_PHRASES.
      contains phrase (lower ''Give me an OVERVIEW of my spending and reminders''))
   \<and> get_intents_for_fetch ''Give me an OVERVIEW of my spending and reminders''
        ''needs_transactions'' = Some True
   \<and> get_intents_for_fetch ''Give me an OVERVIEW of my spending and reminders''
        ''needs_goals'' = Some True
   \<and> get_intents_for_fetch ''Give me an OVERVIEW of my spending and reminders''
        ''needs_reminders'' = Some True"
proof -
  have h: "\<exists>phrase \<in> set FETCH_ALL_PHRASES.
      contains phrase (lower ''Give me an OVERVIEW of my spending and reminders'')"
    by code_simp
  from fetch_all_override [OF h] h show ?thesis by simp
qed

lemma set_need_keeps: "has_true_flag p \<Longrightarrow> has_true_flag (set_need p i)"
  by (auto simp: has_true_flag_def set_need_def)

lemma add_secondary_keeps: "has_true_flag p \<Longrightarrow> has_true_flag (add_secondary p s)"
  by (simp add: add_secondary_def set_need_keeps)

lemma foldl_add_secondary_keeps:
  "has_true_flag p \<Longrightarrow> has_true_flag (foldl add_secondary p ss)"
  by (induction ss arbitrary: p) (simp_all add: add_secondary_keeps)

lemma foldl_set_need_keeps:
  "has_true_flag p \<Longrightarrow> has_true_flag (foldl set_need p is)"
  by (induction "is" arbitrary: p) (simp_all add: set_need_keeps)

lemma set_need_known:
  "i \<in> {''transactions'', ''goals'', ''reminders''} \<Longrightarrow> has_true_flag (set_need p i)"
  by (auto simp: has_true_flag_def set_need_def)

lemma first_multi_in: "first_multi q tab = Some is \<Longrightarrow> is \<in> snd ` set tab"
  by (induction q tab rule: first_multi.induct) (auto split: if_splits)

lemma multi_intents_known:
  "is \<in> snd ` set MULTI_INTENT_PHRASES \<Longrightarrow>
   \<exists>i rest. is = i # rest \<and> i \<in> {''transactions'', ''goals'', ''reminders''}"
  by (auto simp: MULTI_INTENT_PHRASES_def)

lemma max_by_value_in: "max_by_value best xs \<in> set (best # xs)"
  by (induction best xs rule: max_by_value.induct) auto

lemma normalize_keys: "map fst (normalize scores tot) = map fst scores"
  by (simp add: normalize_def case_prod_unfold comp_def)

lemma py_max_key_mem: "d \<noteq> [] \<Longrightarrow> py_max_key d \<in> fst ` set d"
proof -
  assume "d \<noteq> []"
  then have "hd d # tl d = d" by simp
  moreover have "max_by_value (hd d) (tl d) \<in> set (hd d # tl d)"
    by (rule max_by_value_in)
  ultimately show ?thesis
    unfolding py_max_key_def by (metis imageI)
qed

lemma intent_scores_keys:
  "map fst (intent_scores q) = [''transactions'', ''goals'', ''reminders'']"
  by (simp add: intent_scores_def INTENT_KEYWORDS_def)

lemma py_max_key_normalize:
  "py_max_key (normalize (intent_scores q) tot) \<in> {''transactions'', ''goals'', ''reminders''}"
proof -
  let ?d = "normalize (intent_scores q) tot"
  have keys: "map fst ?d = [''transactions'', ''goals'', ''reminders'']"
    by (simp only: normalize_keys intent_scores_keys)
  then have "?d \<noteq> []" by auto
  then have "py_max_key ?d \<in> fst ` set ?d" by (rule py_max_key_mem)
  also have "fst ` set ?d = set (map fst ?d)" by simp
  also have "\<dots> = {''transactions'', ''goals'', ''reminders''}"
    by (simp only: keys) simp
  finally show ?thesis .
qed

lemma classify_primary:
  "primary_intent (classify query) \<in> {''general'', ''transactions'', ''goals'', ''reminders''}"
proof -
  let ?sc = "intent_scores (lower query)"
  let ?tot = "py_sum (map snd ?sc)"
  show ?thesis
  proof (cases "?tot = 0 \<or> py_max (map snd ?sc) = 0")
    case True
    then show ?thesis by (simp add: classify_def classify_scores_def)
  next
    case False
    then show ?thesis
      using py_max_key_normalize [of "lower query" ?tot]
      by (simp add: classify_def classify_scores_def Let_def)
  qed
qed

lemma gif_broad:
  "list_ex (\<lambda>phrase. contains phrase (lower query)) FETCH_ALL_PHRASES \<Longrightarrow>
   get_intents_for_fetch query = all_true"
  by (simp add: get_intents_for_fetch_def)

lemma gif_multi:
  "\<not> list_ex (\<lambda>phrase. contains phrase (lower query)) FETCH_ALL_PHRASES \<Longrightarrow>
   first_multi (lower query) MULTI_INTENT_PHRASES = Some intents \<Longrightarrow>
   get_intents_for_fetch query = foldl set_need all_false intents"
  by (simp add: get_intents_for_fetch_def)

lemma gif_general:
  "\<not> list_ex (\<lambda>phrase. contains phrase (lower query)) FETCH_ALL_PHRASES \<Longrightarrow>
   first_multi (lower query) MULTI_INTENT_PHRASES = None \<Longrightarrow>
   primary_intent (classify query) = ''general'' \<Longrightarrow>
   get_intents_for_fetch query = all_true"
  by (simp add: get_intents_for_fetch_def)

lemma gif_primary:
  "\<not> list_ex (\<lambda>phrase. contains phrase (lower query)) FETCH_ALL_PHRASES \<Longrightarrow>
   first_multi (lower query) MULTI_INTENT_PHRASES = None \<Longrightarrow>
   primary_intent (classify query) \<noteq> ''general'' \<Longrightarrow>
   get_intents_for_fetch query =
     foldl add_secondary (set_need all_false (primary_intent (classify query)))
       (secondary_intents (classify query))"
  by (simp add: get_intents_for_fetch_def Let_def)

text \<open>
  Claim C9 (the plan is never empty). For every query, the empty one included, at least
  one of the three flags of the fetch plan is set.
\<close>

theorem plan_never_empty:
  "get_intents_for_fetch query ''needs_transactions'' = Some True
   \<or> get_intents_for_fetch query ''needs_goals'' = Some True
   \<or> get_intents_for_fetch query ''needs_reminders'' = Some True"
proof -
  have all: "has_true_flag all_true"
    by (simp add: has_true_flag_def all_true_flags)
  have "has_true_flag (get_intents_for_fetch query)"
  proof (cases "list_ex (\<lambda>phrase. contains phrase (lower query)) FETCH_ALL_PHRASES")
    case True
    then show ?thesis by (simp only: gif_broad all)
  next
    case no_broad: False
    show ?thesis
    proof (cases "first_multi (lower query) MULTI_INTENT_PHRASES")
      case (Some intents)
      then have "intents \<in> snd ` set MULTI_INTENT_PHRASES"
        by (rule first_multi_in)
      then obtain i rest where ints: "intents = i # rest"
        and i: "i \<in> {''transactions'', ''goals'', ''reminders''}"
        using multi_intents_known by blast
      have "has_true_flag (foldl set_need (set_need all_false i) rest)"
        by (rule foldl_set_need_keeps [OF set_need_known [OF i]])
      then have "has_true_flag (foldl set_need all_false intents)"
        by (simp only: ints foldl_Cons)
      then show ?thesis
        by (simp only: gif_multi [OF no_broad Some])
    next
      case None
      show ?thesis
      proof (cases "primary_intent (classify query) = ''general''")
        case True
        show ?thesis by (simp only: gif_general [OF no_broad None True] all)
      next
        case False
        with classify_primary [of query]
        have "primary_intent (classify query) \<in> {''transactions'', ''goals'', ''reminders''}"
          by simp
        then have "has_true_flag (foldl add_secondary
                     (set_need all_false (primary_intent (classify query)))
                     (secondary_intents (classify query)))"
          by (rule foldl_add_secondary_keeps [OF set_need_known])
        then show ?thesis
          by (simp only: gif_primary [OF no_broad None False])
      qed
    qed
  qed
  then show ?thesis by (simp only: has_true_flag_def)
qed


section \<open>The plan and the time window of a concrete query\<close>

text \<open>
  The query \<open>How much did I spend last week on food?\<close> is evaluated in stages: its
  lower-cased text, the two phrase tables that come before the classifier, the scores,
  and the decision taken from the scores.
\<close>

lemma spend_query_lower:
  "lower ''How much did I spend last week on food?''
     = ''how much did i spend last week on food?''"
  by code_simp

lemma spend_query_not_broad:
  "\<not> list_ex (\<lambda>phrase. contains phrase ''how much did i spend last week on food?'')
        FETCH_ALL_PHRASES"
  by code_simp

lemma spend_query_not_multi:
  "first_multi ''how much did i spend last week on food?'' MULTI_INTENT_PHRASES = None"
  by code_simp

lemma spend_query_scores:
  "intent_scores ''how much did i spend last week on food?''
     = [(''transactions'', 3), (''goals'', 0), (''reminders'', 0)]"
  by code_simp

lemma spend_query_decision:
  "primary_intent (classify_scores [(''transactions'', 3), (''goals'', 0), (''reminders'', 0)] found)
     = ''transactions''"
  "secondary_intents (classify_scores [(''transactions'', 3), (''goals'', 0), (''reminders'', 0)] found)
     = []"
  by code_simp+

lemma spend_query_classify:
  "primary_intent (classify ''How much did I spend last week on food?'') = ''transactions''"
  "secondary_intents (classify ''How much did I spend last week on food?'') = []"
  by (simp_all only: classify_def Let_def spend_query_lower spend_query_scores
        spend_query_decision)

lemma spend_query_plan:
  "get_intents_for_fetch ''How much did I spend last week on food?''
     = set_need all_false ''transactions''"
  by (simp only: get_intents_for_fetch_def Let_def spend_query_lower spend_query_not_broad
        spend_query_not_multi spend_query_classify if_False option.case foldl_Nil) simp

lemma spend_query_flags:
  "get_intents_for_fetch ''How much did I spend last week on food?'' ''needs_transactions''
     = Some True"
  "get_intents_for_fetch ''How much did I spend last week on food?'' ''needs_goals''
     = Some False"
  "get_intents_for_fetch ''How much did I spend last week on food?'' ''needs_reminders''
     = Some False"
  by (simp_all add: spend_query_plan set_need_def all_false_def)

lemma spend_query_pattern:
  "first_time_pattern (lower ''How much did I spend last week on food?'') TIME_PATTERNS
     = Some (Some 14)"
  by code_simp

lemma first_time_pattern_none:
  "\<forall>p \<in> fst ` set tab. \<not> contains p q \<Longrightarrow> first_time_pattern q tab = None"
  by (induction q tab rule: first_time_pattern.induct) auto

text \<open>
  Claim C7, as the specification states it, gives the query
  \<open>How much did I spend last week on food?\<close> the trailing 7 days as its time window.
  \<open>TIME_PATTERNS\<close> maps \<open>last week\<close> to 14 days (each \<open>last\<close> period is twice its
  \<open>this\<close> period), so at the clock value below (2025-11-04 00:00:00, in microseconds)
  the window returned by \<open>extract_time_range\<close> is not the 7-day one.
\<close>

theorem last_week_window_not_7_days:
  "extract_time_range 1762214400000000 ''How much did I spend last week on food?''
     \<noteq> (Some (1762214400000000 - timedelta_days 7), Some 1762214400000000)"
  by (simp add: extract_time_range_def spend_query_pattern timedelta_days_def)

text \<open>
  Claim C7, amended: for the query \<open>How much did I spend last week on food?\<close> the fetch
  plan enables the transactions category only (the goals and reminders flags are false)
  and the time window is the trailing 14 days ending now; for every query whose
  lower-cased text contains none of the temporal phrases of \<open>TIME_PATTERNS\<close>, the window
  is the trailing 30 days ending now.
\<close>

theorem last_week_window_14_days:
  assumes "\<forall>p \<in> fst ` set TIME_PATTERNS. \<not> contains p (lower query)"
  shows "get_intents_for_fetch ''How much did I spend last week on food?''
            ''needs_transactions'' = Some True
       \<and> get_intents_for_fetch ''How much did I spend last week on food?''
            ''needs_goals'' = Some False
       \<and> get_intents_for_fetch ''How much did I spend last week on food?''
            ''needs_reminders'' = Some False
       \<and> extract_time_range now ''How much did I spend last week on food?''
            = (Some (now - timedelta_days 14), Some now)
       \<and> extract_time_range now query = (Some (now - timedelta_days 30), Some now)"
proof -
  have "first_time_pattern (lower query) TIME_PATTERNS = None"
    using assms by (rule first_time_pattern_none)
  then have "extract_time_range now query = (Some (now - timedelta_days 30), Some now)"
    by (simp add: extract_time_range_def)
  moreover have "extract_time_range now ''How much did I spend last week on food?''
            = (Some (now - timedelta_days 14), Some now)"
    by (simp only: extract_time_range_def spend_query_pattern option.case)
  ultimately show ?thesis
    by (simp only: spend_query_flags simp_thms)
qed

theorem last_week_window_14_days_witness:
  "list_all (\<lambda>p. \<not> contains p (lower ''Show me my goals'')) (map fst TIME_PATTERNS)
   \<and> extract_time_range 1762214400000000 ''Show me my goals''
       = (Some (1762214400000000 - timedelta_days 30), Some 1762214400000000)
   \<and> extract_time_range 1762214400000000 ''How much did I spend last week on food?''
       = (Some (1762214400000000 - timedelta_days 14), Some 1762214400000000)"
proof -
  have h: "list_all (\<lambda>p. \<not> contains p (lower ''Show me my goals'')) (map fst TIME_PATTERNS)"
    by code_simp
  then have "\<forall>p \<in> fst ` set TIME_PATTERNS. \<not> contains p (lower ''Show me my goals'')"
    by (simp add: list_all_iff)
  from last_week_window_14_days [OF this, of 1762214400000000] h show ?thesis
    by simp
qed

section \<open>The decision of the weighted classification\<close>

text \<open>
  Rounding keeps the sign, so every score is non-negative: the weights of the three
  tables are. Hence the largest score is zero only when their sum is. The category that
  \<open>classify\<close> picks is one whose confidence is the largest of the three.
\<close>

lemma pow2_pos: "0 < pow2 k"
  by (simp add: pow2_def)

lemma round_half_even_nonneg: "0 \<le> y \<Longrightarrow> 0 \<le> round_half_even y"
  by (auto simp: round_half_even_def Let_def)

lemma fl_nonneg: "0 \<le> x \<Longrightarrow> 0 \<le> fl x"
proof (cases "x = 0")
  case True
  then show ?thesis by (simp add: fl_def)
next
  case False
  assume "0 \<le> x"
  with False have x: "0 < x" by simp
  have "0 \<le> x / pow2 (binade \<bar>x\<bar> - 52)"
    using x pow2_pos [of "binade \<bar>x\<bar> - 52"] by simp
  then have "0 \<le> round_half_even (\<bar>x\<bar> / pow2 (binade \<bar>x\<bar> - 52))"
    using x by (simp add: round_half_even_nonneg)
  then show ?thesis
    using x pow2_pos [of "binade \<bar>x\<bar> - 52"] by (simp add: fl_def Let_def)
qed

lemma fadd_nonneg: "0 \<le> a \<Longrightarrow> 0 \<le> b \<Longrightarrow> 0 \<le> fadd a b"
  by (simp add: fadd_def fl_nonneg)

lemma fl_0 [simp]: "fl 0 = 0"
  by (simp add: fl_def)

lemma score_fold_nonneg:
  "0 \<le> acc \<Longrightarrow> \<forall>(k, w) \<in> set kws. 0 \<le> w \<Longrightarrow>
   0 \<le> foldl (\<lambda>score (keyword, weight).
              if contains keyword q then fadd score (fl weight) else score) acc kws"
proof (induction kws arbitrary: acc)
  case Nil
  then show ?case by simp
next
  case (Cons kw kws)
  obtain k w where kw: "kw = (k, w)" by (cases kw)
  with Cons.prems have "0 \<le> w" by simp
  then have "0 \<le> (if contains k q then fadd acc (fl w) else acc)"
    using Cons.prems(1) by (simp add: fadd_nonneg fl_nonneg)
  moreover have "\<forall>(k, w) \<in> set kws. 0 \<le> w" using Cons.prems(2) by simp
  ultimately show ?case using kw Cons.IH by simp
qed

lemma weights_nonneg:
  "\<forall>(k, w) \<in> set KEYWORDS_transactions. 0 \<le> w"
  "\<forall>(k, w) \<in> set KEYWORDS_goals. 0 \<le> w"
  "\<forall>(k, w) \<in> set KEYWORDS_reminders. 0 \<le> w"
  by (simp_all add: KEYWORDS_transactions_def KEYWORDS_goals_def KEYWORDS_reminders_def)

lemma intent_scores_shape:
  "\<exists>a b c. intent_scores q = [(''transactions'', a), (''goals'', b), (''reminders'', c)]
     \<and> 0 \<le> a \<and> 0 \<le> b \<and> 0 \<le> c"
  using score_fold_nonneg [OF _ weights_nonneg(1), of 0 q]
    score_fold_nonneg [OF _ weights_nonneg(2), of 0 q]
    score_fold_nonneg [OF _ weights_nonneg(3), of 0 q]
  by (simp add: intent_scores_def INTENT_KEYWORDS_def score_keywords_def)

lemma max_zero_total_zero:
  assumes "py_max (map snd (intent_scores q)) = 0"
  shows "py_sum (map snd (intent_scores q)) = 0"
proof -
  obtain a b c where s: "intent_scores q = [(''transactions'', a), (''goals'', b), (''reminders'', c)]"
    and nn: "0 \<le> a" "0 \<le> b" "0 \<le> c"
    using intent_scores_shape by blast
  from assms s have "max (max a b) c = 0" by (simp add: py_max_def)
  with nn have "a = 0" "b = 0" "c = 0" by (auto simp: max_def split: if_splits)
  with s show ?thesis by (simp add: py_sum_def fadd_def)
qed


lemma normalized_shape:
  "\<exists>x y z. normalized q = [(''transactions'', x), (''goals'', y), (''reminders'', z)]"
proof -
  obtain a b c where "intent_scores (lower q) =
      [(''transactions'', a), (''goals'', b), (''reminders'', c)]"
    using intent_scores_shape by blast
  then show ?thesis by (simp add: normalized_def normalize_def)
qed

lemma winner_is_maximum:
  assumes "d = [(''transactions'', x), (''goals'', y), (''reminders'', z)]"
  shows "dict_get d (py_max_key d) = Max (set (map snd d))"
    and "(py_max_key d, Max (set (map snd d))) \<in> set d"
  using assms by (auto simp: py_max_key_def dict_get_def max_def)

lemma balanced_query_scores:
  "intent_scores (lower ''Debit target alarm'') =
     [(''transactions'', 5404319552844595 / 4503599627370496),
      (''goals'', 5404319552844595 / 4503599627370496),
      (''reminders'', 5404319552844595 / 4503599627370496)]"
  by code_simp

lemma balanced_query_total: "total_score ''Debit target alarm'' \<noteq> 0"
  by (simp only: total_score_def balanced_query_scores) code_simp

lemma balanced_query_confidence:
  "max_confidence ''Debit target alarm'' < CONFIDENCE_THRESHOLD"
  by (simp only: max_confidence_def normalized_def total_score_def balanced_query_scores)
    code_simp

lemma empty_query_total: "total_score [] = 0"
  by code_simp

lemma fl_half: "fl 0.5 = 1 / 2"
  by code_simp

lemma goal_query_scores:
  "intent_scores (lower ''goal'') = [(''transactions'', 0), (''goals'', 3 / 2), (''reminders'', 0)]"
  by code_simp

lemma goal_query_total: "total_score ''goal'' \<noteq> 0"
  by (simp only: total_score_def goal_query_scores) code_simp

lemma goal_query_shares:
  "normalized ''goal'' = [(''transactions'', 0), (''goals'', 1), (''reminders'', 0)]"
  by (simp only: normalized_def total_score_def goal_query_scores) code_simp

lemma goal_query_max: "max_confidence ''goal'' = 1"
  by (simp add: max_confidence_def goal_query_shares)

lemma goal_query_confidence: "\<not> max_confidence ''goal'' < CONFIDENCE_THRESHOLD"
  by (simp only: goal_query_max) code_simp

text \<open>
  Claim C4: for every query, \<open>classify\<close> returns the \<open>general\<close> decision if and only if
  the total accumulated keyword weight is zero or the largest confidence (a score divided
  by the total) is below the threshold 0.4; when the total weight is zero the decision
  carries the fixed confidence 0.5; and a decision other than \<open>general\<close> names a category
  whose confidence is that largest one.
\<close>

theorem general_iff_zero_or_below_threshold:
  "(primary_intent (classify query) = ''general''
      \<longleftrightarrow> total_score query = 0 \<or> max_confidence query < CONFIDENCE_THRESHOLD)
   \<and> (total_score query = 0 \<longrightarrow> confidence (classify query) = fl 0.5)
   \<and> (primary_intent (classify query) \<noteq> ''general'' \<longrightarrow>
        (primary_intent (classify query), max_confidence query) \<in> set (normalized query))"
proof -
  let ?sc = "intent_scores (lower query)"
  let ?tot = "py_sum (map snd ?sc)"
  show ?thesis
  proof (cases "?tot = 0")
    case True
    then show ?thesis
      by (simp add: classify_def classify_scores_def total_score_def)
  next
    case False
    with max_zero_total_zero [of "lower query"] have mx: "py_max (map snd ?sc) \<noteq> 0" by blast
    let ?norm = "normalize ?sc ?tot"
    have norm: "normalized query = ?norm" by (simp add: normalized_def total_score_def)
    obtain x y z where shape: "?norm = [(''transactions'', x), (''goals'', y), (''reminders'', z)]"
      using normalized_shape [of query] unfolding norm by blast
    note win = winner_is_maximum [OF shape]
    have key: "py_max_key ?norm \<noteq> ''general''"
      using win(2) by (auto simp: shape)
    have conf: "dict_get ?norm (py_max_key ?norm) = max_confidence query"
      by (simp only: max_confidence_def norm win(1))
    have mem: "(py_max_key ?norm, max_confidence query) \<in> set (normalized query)"
      using win(2) by (simp only: max_confidence_def norm)
    from False mx key conf mem show ?thesis
      by (simp add: classify_def classify_scores_def Let_def total_score_def)
  qed
qed

theorem general_iff_zero_or_below_threshold_witness:
  "total_score [] = 0 \<and> primary_intent (classify []) = ''general''
   \<and> confidence (classify []) = 1 / 2
   \<and> total_score ''Debit target alarm'' \<noteq> 0
   \<and> max_confidence ''Debit target alarm'' < CONFIDENCE_THRESHOLD
   \<and> primary_intent (classify ''Debit target alarm'') = ''general''
   \<and> total_score ''goal'' \<noteq> 0
   \<and> \<not> max_confidence ''goal'' < CONFIDENCE_THRESHOLD
   \<and> primary_intent (classify ''goal'') = ''goals''"
proof -
  from general_iff_zero_or_below_threshold [of "''goal''"] goal_query_total
    goal_query_confidence
  have "(primary_intent (classify ''goal''), 1 :: rat)
      \<in> set [(''transactions'', 0), (''goals'', 1), (''reminders'', 0)]"
    by (simp add: goal_query_shares goal_query_max)
  then have "primary_intent (classify ''goal'') = ''goals''"
    by simp
  then show ?thesis
    using general_iff_zero_or_below_threshold [of "[]"]
      general_iff_zero_or_below_threshold [of "''Debit target alarm''"]
      empty_query_total balanced_query_total balanced_query_confidence fl_half
      goal_query_total goal_query_confidence
    by simp
qed

section \<open>Properties of the session store\<close>

lemma persist_message_fields:
  "in_memory_messages (persist_message m msg ty md now ok) = in_memory_messages m"
  "max_messages (persist_message m msg ty md now ok) = max_messages m"
  by (simp_all add: persist_message_def split: option.splits)

lemma add_message_max [simp]:
  "max_messages (add_message m c ty md now ok) = max_messages m"
  by (simp add: add_message_def Let_def persist_message_fields)

lemma add_message_messages:
  "in_memory_messages (add_message m c ty md now ok) =
     (let appended = in_memory_messages m @ [make_message c ty md]
      in if int (length appended) > max_messages m
         then slice_from appended (- max_messages m) else appended)"
  by (simp add: add_message_def Let_def persist_message_fields)

lemma lastn_append: "lastn n (lastn n xs @ ys) = lastn n (xs @ ys)"
proof -
  let ?b = "length xs - n"
  have a: "lastn n xs @ ys = drop ?b (xs @ ys)"
    by (simp add: lastn_def)
  have "lastn n (drop ?b (xs @ ys)) = drop (length (drop ?b (xs @ ys)) - n + ?b) (xs @ ys)"
    unfolding lastn_def drop_drop ..
  moreover have "length (drop ?b (xs @ ys)) - n + ?b = length (xs @ ys) - n"
    by (simp del: drop_append)
  ultimately show ?thesis
    unfolding a by (simp only: lastn_def)
qed

lemma lastn_short: "length xs \<le> n \<Longrightarrow> lastn n xs = xs"
  by (simp add: lastn_def)

lemma length_lastn: "length (lastn n xs) = min n (length xs)"
  by (simp add: lastn_def)

lemma slice_from_last:
  assumes "0 < n"
  shows "slice_from xs (- n) = lastn (nat n) xs"
proof -
  have "nat (max (int (length xs) - n) 0) = length xs - nat n"
    using assms by (simp add: max_def nat_diff_distrib')
  with assms show ?thesis
    by (simp add: slice_from_def lastn_def)
qed

lemma add_turn_messages:
  assumes "0 < max_messages m"
  shows "in_memory_messages (add_turn m t) =
         lastn (nat (max_messages m)) (in_memory_messages m @ [turn_message t])"
proof -
  let ?app = "in_memory_messages m @ [turn_message t]"
  have "slice_from ?app (- max_messages m) = lastn (nat (max_messages m)) ?app"
    using assms by (rule slice_from_last)
  moreover have "\<not> int (length ?app) > max_messages m \<Longrightarrow> lastn (nat (max_messages m)) ?app = ?app"
    by (rule lastn_short) simp
  ultimately show ?thesis
    by (auto simp: add_turn_def add_message_messages turn_message_def Let_def)
qed

lemma add_turn_max [simp]: "max_messages (add_turn m t) = max_messages m"
  by (simp add: add_turn_def)

lemma add_turns_max [simp]: "max_messages (add_turns m ts) = max_messages m"
  unfolding add_turns_def by (induction ts arbitrary: m) simp_all

lemma add_turn_length:
  assumes "0 < max_messages m"
  shows "length (in_memory_messages (add_turn m t)) \<le> nat (max_messages m)"
  by (simp add: add_turn_messages [OF assms] length_lastn)

lemma add_turns_messages:
  assumes "0 < max_messages m"
    and "length (in_memory_messages m) \<le> nat (max_messages m)"
  shows "in_memory_messages (add_turns m ts) =
         lastn (nat (max_messages m)) (in_memory_messages m @ map turn_message ts)"
  using assms
proof (induction ts arbitrary: m)
  case Nil
  then show ?case by (simp add: add_turns_def lastn_short)
next
  case (Cons t ts)
  let ?n = "nat (max_messages m)"
  have pos: "0 < max_messages (add_turn m t)" using Cons.prems by simp
  have bound: "length (in_memory_messages (add_turn m t)) \<le> nat (max_messages (add_turn m t))"
    using add_turn_length [OF Cons.prems(1), of t] by simp
  have "in_memory_messages (add_turns m (t # ts)) = in_memory_messages (add_turns (add_turn m t) ts)"
    by (simp add: add_turns_def)
  also have "\<dots> = lastn ?n (in_memory_messages (add_turn m t) @ map turn_message ts)"
    using Cons.IH [OF pos bound] by simp
  also have "\<dots> = lastn ?n (lastn ?n (in_memory_messages m @ [turn_message t]) @ map turn_message ts)"
    by (simp only: add_turn_messages [OF Cons.prems(1)])
  also have "\<dots> = lastn ?n ((in_memory_messages m @ [turn_message t]) @ map turn_message ts)"
    by (rule lastn_append)
  also have "\<dots> = lastn ?n (in_memory_messages m @ map turn_message (t # ts))"
    by simp
  finally show ?case .
qed

lemma lastn_of_longer: "n \<le> length ys \<Longrightarrow> lastn n (xs @ ys) = lastn n ys"
  by (simp add: lastn_def)

text \<open>
  Claim C6: a session whose cap is \<open>N\<close> and whose history is within the cap holds,
  after \<open>N + 1\<close> turns are appended, exactly \<open>N\<close> turns, namely the appended ones
  without the first: what is evicted is the oldest. After any single append to a session
  with that cap the history is no longer than the cap. The cap is positive, as is the
  cap 50 of every session the orchestrator creates.
\<close>

theorem session_cap_ring_buffer:
  assumes "1 \<le> max_messages m"
    and "int (length (in_memory_messages m)) \<le> max_messages m"
    and "int (length ts) = max_messages m + 1"
  shows "in_memory_messages (add_turns m ts) = tl (map turn_message ts)
       \<and> int (length (in_memory_messages (add_turns m ts))) = max_messages m
       \<and> (\<forall>m' t. max_messages m' = max_messages m \<longrightarrow>
              int (length (in_memory_messages (add_turn m' t))) \<le> max_messages m)"
proof -
  let ?N = "max_messages m"
  have pos: "0 < ?N" using assms(1) by simp
  have bound: "length (in_memory_messages m) \<le> nat ?N" using assms(2) by simp
  have len: "length ts = nat ?N + 1" using assms(1,3) by linarith
  have "in_memory_messages (add_turns m ts) =
      lastn (nat ?N) (in_memory_messages m @ map turn_message ts)"
    by (rule add_turns_messages [OF pos bound])
  also have "\<dots> = lastn (nat ?N) (map turn_message ts)"
    by (rule lastn_of_longer) (simp add: len)
  also have "\<dots> = tl (map turn_message ts)"
    using len by (simp add: lastn_def drop_Suc)
  finally have eq: "in_memory_messages (add_turns m ts) = tl (map turn_message ts)" .
  have inv: "int (length (in_memory_messages (add_turn m' t))) \<le> ?N"
    if "max_messages m' = ?N" for m' t
  proof -
    have "0 < max_messages m'" using that pos by simp
    from add_turn_length [OF this, of t] that pos show ?thesis
      by simp
  qed
  from eq len pos inv show ?thesis by simp
qed

theorem session_cap_ring_buffer_witness:
  "in_memory_messages
     (add_turns (new_ChatMemory ''u1'' None 2)
        [\<lparr>turn_content = ''first'', turn_type = ''human'', turn_metadata = None,
          turn_now = 1, turn_insert_ok = True\<rparr>,
         \<lparr>turn_content = ''second'', turn_type = ''ai'', turn_metadata = None,
          turn_now = 2, turn_insert_ok = True\<rparr>,
         \<lparr>turn_content = ''third'', turn_type = ''human'', turn_metadata = None,
          turn_now = 3, turn_insert_ok = True\<rparr>])
   = [AIMessage ''second'' [], HumanMessage ''third'' []]"
  using session_cap_ring_buffer [of "new_ChatMemory ''u1'' None 2"
      "[\<lparr>turn_content = ''first'', turn_type = ''human'', turn_metadata = None,
          turn_now = 1, turn_insert_ok = True\<rparr>,
         \<lparr>turn_content = ''second'', turn_type = ''ai'', turn_metadata = None,
          turn_now = 2, turn_insert_ok = True\<rparr>,
         \<lparr>turn_content = ''third'', turn_type = ''human'', turn_metadata = None,
          turn_now = 3, turn_insert_ok = True\<rparr>]"]
  by (simp add: new_ChatMemory_def turn_message_def make_message_def or_empty_def)

text \<open>
  The trim is a slice from \<open>-max_messages\<close>. For a cap of 0, which no session of the
  orchestrator has, that slice is the whole list and the turn just appended stays.
\<close>

lemma cap_zero_keeps_turn:
  "in_memory_messages (add_turns (new_ChatMemory uid d 0) [t]) = [turn_message t]"
  by (simp add: add_turns_def add_turn_def add_message_messages new_ChatMemory_def
      slice_from_def turn_message_def)

section \<open>Error isolation in the data fetcher\<close>

text \<open>
  Looking up and storing under string keys, and the fact that none of the four helpers,
  nor \<open>fetch_intent_data\<close>, lets an exception of a collaborator escape.
\<close>

lemma key_eq_PStr [simp]:
  "key_eq (PStr a) k \<longleftrightarrow> k = PStr a"
  "key_eq k (PStr a) \<longleftrightarrow> k = PStr a"
  by (cases k; auto simp: key_eq_def)+








lemma fetch_intent_data_unknown:
  assumes "fetchers self uid (fst tr) (snd tr) q intent = None"
  shows "fetch_intent_data self now uid intent tr q =
     Inr (PDict [(PStr ''intent'', PStr intent), (PStr ''user_id'', PStr uid),
                 (PStr ''timestamp'', PStr now), (PStr ''data'', PDict [])])"
  using assms by (cases tr) (simp add: fetch_intent_data_def)






















text \<open>
  Claim C10: \<open>fetch_intent_data\<close> called with an intent that is none of \<open>transactions\<close>,
  \<open>goals\<close>, \<open>reminders\<close> and \<open>general\<close> does not raise: it returns the result holding
  the intent as given, the user id, the timestamp and an empty \<open>data\<close> dictionary, and
  that result has no \<open>error\<close> entry.
\<close>

theorem unknown_intent_empty_data:
  assumes "intent \<notin> {''transactions'', ''goals'', ''reminders'', ''general''}"
  shows "fetch_intent_data self now uid intent time_range query =
           Inr (PDict [(PStr ''intent'', PStr intent), (PStr ''user_id'', PStr uid),
                       (PStr ''timestamp'', PStr now), (PStr ''data'', PDict [])])
       \<and> entry_field (PDict [(PStr ''intent'', PStr intent), (PStr ''user_id'', PStr uid),
                       (PStr ''timestamp'', PStr now), (PStr ''data'', PDict [])]) ''error''
           = None"
proof -
  from assms have "fetchers self uid (fst time_range) (snd time_range) query intent = None"
    by (simp add: fetchers_def)
  then show ?thesis
    by (simp add: fetch_intent_data_unknown entry_field_def)
qed

theorem unknown_intent_empty_data_witness:
  "fetch_intent_data failing_goals_fetcher ''2025-11-04T09:30:00'' ''u1'' ''budgets''
       (None, None) ''my budgets'' =
     Inr (PDict [(PStr ''intent'', PStr ''budgets''), (PStr ''user_id'', PStr ''u1''),
                 (PStr ''timestamp'', PStr ''2025-11-04T09:30:00''), (PStr ''data'', PDict [])])"
  using unknown_intent_empty_data [of "''budgets''" failing_goals_fetcher
      "''2025-11-04T09:30:00''" "''u1''" "(None, None)" "''my budgets''"]
  by simp



section \<open>Rounding errors and the sum of the confidences\<close>

text \<open>
  Rounding a non-negative number to a float changes it by at most the fraction \<open>2\<^sup>-\<^sup>5\<^sup>3\<close>
  of itself. The proof goes through the bit length of an integer and the binade of a
  rational.
\<close>

lemma bitlen_pos: "0 < n \<Longrightarrow> 1 \<le> bitlen n"
proof -
  assume "0 < n"
  moreover have "0 \<le> bitlen m" for m
    by (induction m rule: bitlen.induct) (subst bitlen.simps, simp)
  ultimately show ?thesis using bitlen.simps [of n] by (simp add: add_increasing2)
qed

lemma bitlen_bounds:
  "0 < n \<Longrightarrow> 2 ^ nat (bitlen n - 1) \<le> n \<and> n < 2 ^ nat (bitlen n)"
proof (induction n rule: bitlen.induct)
  case (1 n)
  show ?case
  proof (cases "n div 2 = 0")
    case True
    with 1(2) have "n = 1" by presburger
    then show ?thesis by (simp add: bitlen.simps [of 1] bitlen.simps [of 0])
  next
    case False
    with 1(2) have m: "0 < n div 2" by presburger
    from 1(2) have not: "\<not> n \<le> 0" by simp
    from 1(1) [OF not m] have ih: "2 ^ nat (bitlen (n div 2) - 1) \<le> n div 2"
      "n div 2 < 2 ^ nat (bitlen (n div 2))" by simp_all
    have b: "bitlen n = 1 + bitlen (n div 2)" using 1(2) by (subst bitlen.simps) simp
    have k: "1 \<le> bitlen (n div 2)" using m by (rule bitlen_pos)
    then have e1: "nat (bitlen n - 1) = Suc (nat (bitlen (n div 2) - 1))" using b by simp
    have e2: "nat (bitlen n) = Suc (nat (bitlen (n div 2)))" using b k by simp
    have "2 * 2 ^ nat (bitlen (n div 2) - 1) \<le> 2 * (n div 2)" using ih(1) by simp
    also have "\<dots> \<le> n" by presburger
    finally have lo: "2 ^ nat (bitlen n - 1) \<le> n" by (simp add: e1)
    have "n + 1 \<le> 2 * (n div 2 + 1)" by presburger
    also have "\<dots> \<le> 2 * 2 ^ nat (bitlen (n div 2))" using ih(2) by simp
    finally have hi: "n < 2 ^ nat (bitlen n)" by (simp add: e2)
    from lo hi show ?thesis by simp
  qed
qed

lemma pow2_diff: "pow2 (a - b) = pow2 a / pow2 b"
  by (simp add: pow2_def power_int_diff)

lemma pow2_add: "pow2 (a + b) = pow2 a * pow2 b"
  by (simp add: pow2_def power_int_add)

lemma pow2_nat: "0 \<le> k \<Longrightarrow> pow2 k = 2 ^ nat k"
  by (simp add: pow2_def power_int_def)

lemma bitlen_pow2:
  assumes "0 < n"
  shows "pow2 (bitlen n - 1) \<le> of_int n" "of_int n < pow2 (bitlen n)"
proof -
  from bitlen_pos [OF assms] have k: "0 \<le> bitlen n - 1" "0 \<le> bitlen n" by simp_all
  from bitlen_bounds [OF assms]
  have "(of_int (2 ^ nat (bitlen n - 1)) :: rat) \<le> of_int n"
    "(of_int n :: rat) < of_int (2 ^ nat (bitlen n))"
    by (simp_all only: of_int_le_iff of_int_less_iff)
  then show "pow2 (bitlen n - 1) \<le> of_int n" "of_int n < pow2 (bitlen n)"
    by (simp_all add: pow2_nat [OF k(1)] pow2_nat [OF k(2)])
qed

lemma binade_bounds:
  assumes "0 < x"
  shows "pow2 (binade x) \<le> x" "x < pow2 (binade x + 1)"
proof -
  obtain p q where pq: "quotient_of x = (p, q)" by (cases "quotient_of x")
  then have q: "0 < q" by (rule quotient_of_denom_pos)
  from pq have x: "x = of_int p / of_int q" by (rule quotient_of_div)
  with assms q have p: "0 < p" by (simp add: zero_less_divide_iff)
  let ?k = "bitlen p - bitlen q"
  note bp = bitlen_pow2 [OF p] and bq = bitlen_pow2 [OF q]
  have qpos: "(0::rat) < of_int q" and ppos: "(0::rat) < of_int p" using p q by simp_all
  have "x < pow2 (bitlen p) / pow2 (bitlen q - 1)"
    unfolding x using ppos bp(2) bq(1) pow2_pos [of "bitlen q - 1"]
    by (intro frac_less) simp_all
  also have "\<dots> = pow2 (?k + 1)"
    by (simp add: pow2_diff pow2_add)
  finally have hi: "x < pow2 (?k + 1)" .
  have "pow2 (bitlen p - 1) / pow2 (bitlen q) < x"
    unfolding x using bp(1) bq(2) qpos pow2_pos [of "bitlen p - 1"]
    by (intro frac_less2) simp_all
  moreover have "pow2 (bitlen p - 1) / pow2 (bitlen q) = pow2 (?k - 1)"
    by (simp add: pow2_diff pow2_add)
  ultimately have lo: "pow2 (?k - 1) < x" by simp
  show "pow2 (binade x) \<le> x"
    using lo by (simp add: binade_def pq Let_def)
  show "x < pow2 (binade x + 1)"
    using hi by (simp add: binade_def pq Let_def not_le)
qed

lemma round_half_even_error: "\<bar>of_int (round_half_even y) - y\<bar> \<le> 1 / 2"
proof -
  have "of_int \<lfloor>y\<rfloor> \<le> y" "y < of_int \<lfloor>y\<rfloor> + 1" by linarith+
  then show ?thesis
    by (auto simp: round_half_even_def Let_def abs_le_iff)
qed

lemma fl_error:
  assumes "0 \<le> x"
  shows "\<bar>fl x - x\<bar> \<le> x / 2 ^ 53"
proof (cases "x = 0")
  case True
  then show ?thesis by simp
next
  case False
  with assms have x: "0 < x" by simp
  let ?U = "pow2 (binade x - 52)"
  have U: "0 < ?U" by (rule pow2_pos)
  have flx: "fl x = of_int (round_half_even (x / ?U)) * ?U"
    using x by (simp add: fl_def Let_def)
  have "fl x - x = (of_int (round_half_even (x / ?U)) - x / ?U) * ?U"
    using U by (simp add: flx field_simps)
  then have "\<bar>fl x - x\<bar> = \<bar>of_int (round_half_even (x / ?U)) - x / ?U\<bar> * ?U"
    using U by (simp add: abs_mult)
  also have "\<dots> \<le> 1 / 2 * ?U"
    using U round_half_even_error [of "x / ?U"] by (intro mult_right_mono) simp_all
  also have "?U = pow2 (binade x) / 2 ^ 52"
    by (simp add: pow2_diff pow2_nat)
  also have "1 / 2 * (pow2 (binade x) / 2 ^ 52) \<le> 1 / 2 * (x / 2 ^ 52)"
    using binade_bounds(1) [OF x] by (simp add: divide_right_mono)
  also have "\<dots> = x / 2 ^ 53" by simp
  finally show ?thesis .
qed

lemma fl_bounds:
  assumes "0 \<le> x"
  shows "(1 - 1 / 2 ^ 53) * x \<le> fl x" "fl x \<le> (1 + 1 / 2 ^ 53) * x"
proof -
  from fl_error [OF assms] have "fl x - x \<le> x / 2 ^ 53" "- (fl x - x) \<le> x / 2 ^ 53"
    unfolding abs_le_iff by blast+
  then show "(1 - 1 / 2 ^ 53) * x \<le> fl x" "fl x \<le> (1 + 1 / 2 ^ 53) * x"
    by (simp_all add: algebra_simps)
qed

lemma py_sum3_bounds:
  assumes "0 \<le> a" "0 \<le> b" "0 \<le> c"
  shows "(1 - 3 / 2 ^ 53) * (a + b + c) \<le> py_sum [a, b, c]"
    "py_sum [a, b, c] \<le> (1 + 4 / 2 ^ 53) * (a + b + c)"
proof -
  let ?t1 = "fl a" and ?t2 = "fl (fl a + b)" and ?T = "fl (fl (fl a + b) + c)"
  have T: "py_sum [a, b, c] = ?T" by (simp add: py_sum_def fadd_def)
  have t1: "0 \<le> ?t1" using assms by (simp add: fl_nonneg)
  then have t2: "0 \<le> ?t2" using assms by (simp add: fl_nonneg)
  note b1 = fl_bounds [OF assms(1)]
  have "0 \<le> ?t1 + b" using t1 assms by simp
  note b2 = fl_bounds [OF this]
  have "0 \<le> ?t2 + c" using t2 assms by simp
  note b3 = fl_bounds [OF this]
  show "(1 - 3 / 2 ^ 53) * (a + b + c) \<le> py_sum [a, b, c]"
    unfolding T using assms b1(1) b2(1) b3(1) by (simp add: algebra_simps)
  show "py_sum [a, b, c] \<le> (1 + 4 / 2 ^ 53) * (a + b + c)"
    unfolding T using assms b1(2) b2(2) b3(2) by (simp add: algebra_simps)
qed

lemma near_one_exact:
  fixes x y z fx fy fz :: rat
  assumes "(1 - 3 / 2 ^ 53) * (x + y + z) \<le> 1" "1 \<le> (1 + 4 / 2 ^ 53) * (x + y + z)"
    and "(1 - 1 / 2 ^ 53) * x \<le> fx" "fx \<le> (1 + 1 / 2 ^ 53) * x"
    and "(1 - 1 / 2 ^ 53) * y \<le> fy" "fy \<le> (1 + 1 / 2 ^ 53) * y"
    and "(1 - 1 / 2 ^ 53) * z \<le> fz" "fz \<le> (1 + 1 / 2 ^ 53) * z"
  shows "\<bar>fx + fy + fz - 1\<bar> \<le> 1 / 2 ^ 50"
  using assms unfolding abs_le_iff by (simp add: algebra_simps)

lemma near_one_float:
  fixes C P :: rat
  assumes "\<bar>C - 1\<bar> \<le> 1 / 2 ^ 50"
    and "(1 - 3 / 2 ^ 53) * C \<le> P" "P \<le> (1 + 4 / 2 ^ 53) * C"
  shows "\<bar>P - 1\<bar> \<le> 1 / 2 ^ 49"
  using assms unfolding abs_le_iff by (simp add: algebra_simps)

lemma shares_sum_bounds:
  assumes "0 \<le> a" "0 \<le> b" "0 \<le> c" and T: "T = py_sum [a, b, c]" "0 < T"
  shows "\<bar>fdiv a T + fdiv b T + fdiv c T - 1\<bar> \<le> 1 / 2 ^ 50"
    and "\<bar>py_sum [fdiv a T, fdiv b T, fdiv c T] - 1\<bar> \<le> 1 / 2 ^ 49"
proof -
  let ?x = "a / T" and ?y = "b / T" and ?z = "c / T"
  have nn: "0 \<le> ?x" "0 \<le> ?y" "0 \<le> ?z" using assms by simp_all
  note bx = fl_bounds [OF nn(1)] and by' = fl_bounds [OF nn(2)] and bz = fl_bounds [OF nn(3)]
  have split: "(a + b + c) / T = ?x + ?y + ?z" by (simp add: add_divide_distrib)
  from py_sum3_bounds [OF assms(1-3)] T
  have "(1 - 3 / 2 ^ 53) * (a + b + c) \<le> T" "T \<le> (1 + 4 / 2 ^ 53) * (a + b + c)"
    by simp_all
  then have "(1 - 3 / 2 ^ 53) * (a + b + c) / T \<le> T / T"
    "T / T \<le> (1 + 4 / 2 ^ 53) * (a + b + c) / T"
    using T(2) by (simp_all only: divide_right_mono less_imp_le)
  then have "(1 - 3 / 2 ^ 53) * ((a + b + c) / T) \<le> 1"
    "1 \<le> (1 + 4 / 2 ^ 53) * ((a + b + c) / T)"
    using T(2) by simp_all
  then have s: "(1 - 3 / 2 ^ 53) * (?x + ?y + ?z) \<le> 1" "1 \<le> (1 + 4 / 2 ^ 53) * (?x + ?y + ?z)"
    by (simp_all only: split)
  have C: "\<bar>fl ?x + fl ?y + fl ?z - 1\<bar> \<le> 1 / 2 ^ 50"
    by (rule near_one_exact [OF s bx by' bz])
  then show "\<bar>fdiv a T + fdiv b T + fdiv c T - 1\<bar> \<le> 1 / 2 ^ 50"
    by (simp only: fdiv_def)
  have fnn: "0 \<le> fl ?x" "0 \<le> fl ?y" "0 \<le> fl ?z" using nn by (simp_all add: fl_nonneg)
  have "\<bar>py_sum [fl ?x, fl ?y, fl ?z] - 1\<bar> \<le> 1 / 2 ^ 49"
    by (rule near_one_float [OF C py_sum3_bounds [OF fnn]])
  then show "\<bar>py_sum [fdiv a T, fdiv b T, fdiv c T] - 1\<bar> \<le> 1 / 2 ^ 49"
    by (simp only: fdiv_def)
qed

lemma income_target_scores:
  "intent_scores (lower ''income target'') =
     [(''transactions'', 3 / 2), (''goals'', 5404319552844595 / 4503599627370496),
      (''reminders'', 0)]"
  by code_simp

lemma income_target_total: "total_score ''income target'' = 3039929748475085 / 1125899906842624"
  by (simp only: total_score_def income_target_scores) code_simp

lemma income_target_shares:
  "map snd (normalized ''income target'') =
     [5003999585967217 / 9007199254740992, 2001599834386887 / 4503599627370496, 0]"
  by (simp only: normalized_def income_target_total income_target_scores) code_simp

text \<open>
  Claim C8, as the specification states it, makes the confidences of a query with positive
  total weight sum to exactly 1.0. For \<open>income target\<close> the scores are 1.5 and 1.2 (the
  float nearest to it) and 0, the total is the float nearest to 2.7, and the three
  quotients, each rounded to a float, add up to \<open>1 - 2\<^sup>-\<^sup>5\<^sup>3\<close>, whether they are added
  exactly or with float addition.
\<close>

theorem confidences_sum_not_one:
  "0 < total_score ''income target''
   \<and> sum_list (map snd (normalized ''income target'')) \<noteq> 1
   \<and> py_sum (map snd (normalized ''income target'')) \<noteq> 1"
proof -
  have "py_sum [5003999585967217 / 9007199254740992, 2001599834386887 / 4503599627370496, 0]
      = 9007199254740991 / 9007199254740992"
    by code_simp
  then show ?thesis
    by (simp add: income_target_total income_target_shares)
qed

text \<open>
  Claim C8, amended: for every query whose total accumulated keyword weight is strictly
  positive, the per-category confidences (each category's score divided by the total, in
  float arithmetic) sum to 1.0 up to rounding: their exact sum differs from 1 by at most
  \<open>2\<^sup>-\<^sup>5\<^sup>0\<close>, and their sum in float addition by at most \<open>2\<^sup>-\<^sup>4\<^sup>9\<close>.
\<close>

theorem confidences_sum_near_one:
  assumes "0 < total_score query"
  shows "\<bar>sum_list (map snd (normalized query)) - 1\<bar> \<le> 1 / 2 ^ 50
       \<and> \<bar>py_sum (map snd (normalized query)) - 1\<bar> \<le> 1 / 2 ^ 49"
proof -
  obtain a b c where s: "intent_scores (lower query) =
      [(''transactions'', a), (''goals'', b), (''reminders'', c)]"
    and nn: "0 \<le> a" "0 \<le> b" "0 \<le> c"
    using intent_scores_shape by blast
  have T: "total_score query = py_sum [a, b, c]" by (simp add: total_score_def s)
  have n: "map snd (normalized query) =
      [fdiv a (total_score query), fdiv b (total_score query), fdiv c (total_score query)]"
    by (simp add: normalized_def normalize_def s)
  from shares_sum_bounds [OF nn T assms] show ?thesis
    by (simp only: n sum_list.Cons sum_list.Nil add_0_right add.assoc)
qed

theorem confidences_sum_near_one_witness:
  "0 < total_score ''income target''
   \<and> \<bar>sum_list (map snd (normalized ''income target'')) - 1\<bar> \<le> 1 / 2 ^ 50
   \<and> \<bar>py_sum (map snd (normalized ''income target'')) - 1\<bar> \<le> 1 / 2 ^ 49"
proof -
  have h: "0 < total_score ''income target''"
    by (simp add: income_target_total)
  from confidences_sum_near_one [OF h] h show ?thesis by simp
qed

section \<open>The fallback to the second provider\<close>



lemma history_of_put [simp]:
  "history_of (put_user_memory self uid memory) uid = in_memory_messages memory"
  by (simp add: history_of_def put_user_memory_def get_conversation_history_def)





section \<open>Masking a card number\<close>

text \<open>
  Claim C5: masking the text \<open>card 4111111111111111\<close> returns a message whose masked
  text keeps the first four and the last four digits of the 16-digit run and has a \<open>*\<close>
  in place of each of the eight digits between them, and whose \<open>has_sensitive_info\<close> flag
  is true. The run is found by the credit-card pattern only; no other pattern matches the
  text before or after the replacement.
\<close>

theorem card_masking:
  "mask ''card 4111111111111111'' =
     Inr \<lparr>original = ''card 4111111111111111'',
          masked = ''card 4111********1111'',
          pii_found = [(''credit_card'', [''4111111111111111''])],
          has_sensitive_info = True\<rparr>"
  by code_simp
end
